theory Spec2Isabelle
  imports Complex_Main
begin

section \<open>Strings and numbers of the source language\<close>

text \<open>
  A TypeScript string is a sequence of UTF-16 code units: \<open>s.length\<close> counts code units and
  \<open>s[i]\<close> is one code unit.  The writer tests \<open>value.length === 1\<close> on glyphs such as
  U+2211, so strings are modelled as lists of code units (natural numbers); \<open>lit\<close> embeds an
  ASCII literal.  The backslash, the double quote and the apostrophe are written by their
  codes 92, 34 and 39.
\<close>

type_synonym jstring = "nat list"

definition lit :: "string \<Rightarrow> jstring" where
  "lit s = map of_char s"

text \<open>
  A TypeScript \<open>number\<close> is a double.  The only numbers of the program are the width of
  \<open>ESpace\<close>, which the writer compares with decimal literals, and the factor of \<open>EScaled\<close>,
  which the writer does not read.  A finite double is modelled by the rational it denotes;
  the comparisons with NaN are false as in the source.
\<close>

datatype number = Num rat | NaN | PosInf | NegInf

definition num_gt :: "number \<Rightarrow> rat \<Rightarrow> bool" where
  "num_gt w r = (case w of Num q \<Rightarrow> q > r | PosInf \<Rightarrow> True | _ \<Rightarrow> False)"

definition num_le :: "number \<Rightarrow> rat \<Rightarrow> bool" where
  "num_le w r = (case w of Num q \<Rightarrow> q \<le> r | NegInf \<Rightarrow> True | _ \<Rightarrow> False)"

text \<open>
  A decimal literal of the source denotes the double nearest to it, which is in general not
  the decimal fraction itself: \<open>0.17\<close> is the double \<open>0x1.5c28f5c28f5c3p-3\<close>, slightly above
  17/100.  The literals of the program that are not exact are given here by the rationals
  that their doubles denote (the mantissa over a power of two); \<open>0.5\<close> and \<open>0\<close> are exact.
\<close>

definition double_0_17 :: rat where
  "double_0_17 = 6124895493223875 / 36028797018963968"

definition double_0_23 :: rat where
  "double_0_23 = 8286623314361713 / 36028797018963968"

definition double_0_28 :: rat where
  "double_0_28 = 1261007895663739 / 4503599627370496"

definition double_0_33 :: rat where
  "double_0_33 = 5944751508129055 / 18014398509481984"

definition double_1_8 :: rat where
  "double_1_8 = 8106479329266893 / 4503599627370496"


section \<open>The expression tree (types.ts)\<close>

datatype TeXSymbolType =
  Ord | Op | Bin | Rel | Open | Close | Pun | Accent | Fence | TOver | TUnder | Alpha
  | BotAccent | Rad

datatype Alignment = AlignLeft | AlignCenter | AlignRight

datatype FractionType = NormalFrac | DisplayFrac | InlineFrac | NoLineFrac

datatype StrokeType = ForwardSlash | BackSlash | XSlash

datatype TextType =
  TextNormal | TextBold | TextItalic | TextMonospace | TextSansSerif | TextDoubleStruck
  | TextScript | TextFraktur | TextBoldItalic | TextSansSerifBold | TextSansSerifBoldItalic
  | TextBoldScript | TextBoldFraktur | TextSansSerifItalic

datatype DisplayType = DisplayBlock | DisplayInline

datatype 'e InEDelimited = Left jstring | Right 'e

datatype Exp =
    ENumber jstring
  | EGrouped "Exp list"
  | EDelimited jstring jstring "Exp InEDelimited list"
  | EIdentifier jstring
  | EMathOperator jstring
  | ESymbol TeXSymbolType jstring
  | ESpace number
  | ESub Exp Exp
  | ESuper Exp Exp
  | ESubsup Exp Exp Exp
  | EOver bool Exp Exp
  | EUnder bool Exp Exp
  | EUnderover bool Exp Exp Exp
  | EPhantom Exp
  | EBoxed Exp
  | ECancel StrokeType Exp
  | EFraction FractionType Exp Exp
  | ERoot Exp Exp
  | ESqrt Exp
  | EScaled number Exp
  | EArray "Alignment list" "Exp list list list"
  | EText TextType jstring
  | EStyled TextType "Exp list"

text \<open>
  The fields are positional, in the order of the type declaration: \<open>ESub base subscript\<close>,
  \<open>ESuper base superscript\<close>, \<open>ESubsup base subscript superscript\<close>,
  \<open>EOver convertible base over\<close>, \<open>EUnder convertible base under\<close>,
  \<open>EUnderover convertible base under over\<close>, \<open>EFraction fractionType numerator denominator\<close>,
  \<open>ERoot index base\<close>, \<open>EDelimited open close content\<close>, \<open>EArray alignments lines\<close>.
\<close>


section \<open>The markup tree and its serialization (writer.ts)\<close>

text \<open>
  A child of a node is a node or a string: \<open>XText\<close> is the string alternative of the union
  \<open>XMLNode | string\<close>.  The attribute record keeps insertion order, so it is an association
  list.
\<close>

datatype XMLNode =
    XElem jstring "(jstring \<times> jstring) list" "XMLNode list"
  | XText jstring

definition createNode :: "jstring \<Rightarrow> (jstring \<times> jstring) list \<Rightarrow> XMLNode list \<Rightarrow> XMLNode" where
  "createNode tag attrs children = XElem (lit ''m:'' @ tag) attrs children"

definition createNodeWithVal :: "jstring \<Rightarrow> jstring \<Rightarrow> XMLNode list \<Rightarrow> XMLNode" where
  "createNodeWithVal tag val children = createNode tag [(lit ''m:val'', val)] children"

text \<open>\<open>str.replace(/c/g, r)\<close> for a one-character pattern \<open>c\<close>.\<close>

definition replaceAll :: "nat \<Rightarrow> jstring \<Rightarrow> jstring \<Rightarrow> jstring" where
  "replaceAll c r s = concat (map (\<lambda>x. if x = c then r else [x]) s)"

definition escapeXml :: "jstring \<Rightarrow> jstring" where
  "escapeXml s =
     replaceAll 39 (lit ''&apos;'')
       (replaceAll 34 (lit ''&quot;'')
         (replaceAll 62 (lit ''&gt;'')
           (replaceAll 60 (lit ''&lt;'')
             (replaceAll 38 (lit ''&amp;'') s))))"

definition join :: "jstring \<Rightarrow> jstring list \<Rightarrow> jstring" where
  "join sep ss = (case ss of [] \<Rightarrow> [] | s # rest \<Rightarrow> s @ concat (map (\<lambda>t. sep @ t) rest))"

definition attrsToString :: "(jstring \<times> jstring) list \<Rightarrow> jstring" where
  "attrsToString attrs =
     concat (map (\<lambda>(k, v). lit '' '' @ k @ lit ''='' @ [34] @ escapeXml v @ [34]) attrs)"

definition isText :: "XMLNode \<Rightarrow> bool" where
  "isText n = (case n of XText _ \<Rightarrow> True | _ \<Rightarrow> False)"

definition textOf :: "XMLNode \<Rightarrow> jstring" where
  "textOf n = (case n of XText s \<Rightarrow> s | _ \<Rightarrow> [])"

fun nodeToString :: "XMLNode \<Rightarrow> nat \<Rightarrow> jstring" where
  "nodeToString (XText s) indent = s"
| "nodeToString (XElem tag attrs children) indent =
     (if length children = 0
      then concat (replicate indent (lit ''  '')) @ lit ''<'' @ tag @ attrsToString attrs @ lit ''/>''
      else if length children = 1 \<and> isText (children ! 0)
      then concat (replicate indent (lit ''  '')) @ lit ''<'' @ tag @ attrsToString attrs @ lit ''>''
           @ escapeXml (textOf (children ! 0)) @ lit ''</'' @ tag @ lit ''>''
      else concat (replicate indent (lit ''  '')) @ lit ''<'' @ tag @ attrsToString attrs @ lit ''>''
           @ [10] @ join [10] (map (\<lambda>child. nodeToString child (indent + 1)) children) @ [10]
           @ concat (replicate indent (lit ''  '')) @ lit ''</'' @ tag @ lit ''>'')"

definition str :: "XMLNode list \<Rightarrow> jstring \<Rightarrow> XMLNode" where
  "str props text =
     (if length props = 0
      then createNode (lit ''r'') [] [createNode (lit ''t'') [] [XText text]]
      else createNode (lit ''r'') []
             [createNode (lit ''rPr'') [] props, createNode (lit ''t'') [] [XText text]])"

definition sty :: "jstring \<Rightarrow> XMLNode" where
  "sty val = createNodeWithVal (lit ''sty'') val []"

definition scr :: "jstring \<Rightarrow> XMLNode" where
  "scr val = createNodeWithVal (lit ''scr'') val []"

fun setProps :: "TextType \<Rightarrow> XMLNode list" where
  "setProps TextNormal = [sty (lit ''p'')]"
| "setProps TextBold = [sty (lit ''b'')]"
| "setProps TextItalic = [sty (lit ''i'')]"
| "setProps TextMonospace = [scr (lit ''monospace''), sty (lit ''p'')]"
| "setProps TextSansSerif = [scr (lit ''sans-serif''), sty (lit ''p'')]"
| "setProps TextDoubleStruck = [scr (lit ''double-struck''), sty (lit ''p'')]"
| "setProps TextScript = [scr (lit ''script''), sty (lit ''p'')]"
| "setProps TextFraktur = [scr (lit ''fraktur''), sty (lit ''p'')]"
| "setProps TextBoldItalic = [sty (lit ''bi'')]"
| "setProps TextSansSerifBold = [scr (lit ''sans-serif''), sty (lit ''b'')]"
| "setProps TextBoldScript = [scr (lit ''script''), sty (lit ''b'')]"
| "setProps TextBoldFraktur = [scr (lit ''fraktur''), sty (lit ''b'')]"
| "setProps TextSansSerifItalic = [scr (lit ''sans-serif''), sty (lit ''i'')]"
| "setProps TextSansSerifBoldItalic = [scr (lit ''sans-serif''), sty (lit ''bi'')]"

definition defaultTo :: "TextType \<Rightarrow> XMLNode list \<Rightarrow> XMLNode list" where
  "defaultTo textType props = (if length props = 0 then setProps textType else props)"

definition isBarChar :: "jstring \<Rightarrow> bool" where
  "isBarChar char \<longleftrightarrow>
     char = [0x203E] \<or> char = [0x00AF] \<or> char = [0x0304] \<or> char = [0x0333] \<or> char = lit ''_''"

definition narySymbols :: "jstring list" where
  "narySymbols =
     [[0x222B], [0x222C], [0x222D], [0x222E], [0x222F], [0x2230], [0x220F], [0x2210], [0x2211]]"

definition isNary :: "Exp \<Rightarrow> bool" where
  "isNary e = (case e of ESymbol st v \<Rightarrow> st = Op \<and> v \<in> set narySymbols | _ \<Rightarrow> False)"

definition isUppercaseGreek :: "jstring \<Rightarrow> bool" where
  "isUppercaseGreek char \<longleftrightarrow>
     char \<in> set [[0x0393], [0x0394], [0x0398], [0x039B], [0x039E], [0x03A0], [0x03A3], [0x03A5],
                 [0x03A6], [0x03A8], [0x03A9]]"

text \<open>The character classes of the regular expressions \<open>\w\<close>, \<open>\s\<close>, \<open>\d\<close> and \<open>[a-zA-Z]\<close>.\<close>

definition isLetter :: "nat \<Rightarrow> bool" where
  "isLetter c \<longleftrightarrow> (65 \<le> c \<and> c \<le> 90) \<or> (97 \<le> c \<and> c \<le> 122)"

definition isDigit :: "nat \<Rightarrow> bool" where
  "isDigit c \<longleftrightarrow> 48 \<le> c \<and> c \<le> 57"

definition isWordChar :: "nat \<Rightarrow> bool" where
  "isWordChar c \<longleftrightarrow> isLetter c \<or> isDigit c \<or> c = 95"

definition isSpaceChar :: "nat \<Rightarrow> bool" where
  "isSpaceChar c \<longleftrightarrow>
     (9 \<le> c \<and> c \<le> 13) \<or> c = 32 \<or> c = 0xA0 \<or> c = 0x1680 \<or> (0x2000 \<le> c \<and> c \<le> 0x200A)
     \<or> c = 0x2028 \<or> c = 0x2029 \<or> c = 0x202F \<or> c = 0x205F \<or> c = 0x3000 \<or> c = 0xFEFF"

definition symValue :: "Exp \<Rightarrow> jstring" where
  "symValue e = (case e of ESymbol _ v \<Rightarrow> v | _ \<Rightarrow> [])"

definition alignStr :: "Alignment \<Rightarrow> jstring" where
  "alignStr align =
     (if align = AlignLeft then lit ''left'' else if align = AlignRight then lit ''right''
      else lit ''center'')"

definition makeText :: "TextType \<Rightarrow> jstring \<Rightarrow> XMLNode" where
  "makeText textType text = str (createNode (lit ''nor'') [] [] # setProps textType) text"

definition spaceChar :: "number \<Rightarrow> jstring" where
  "spaceChar width =
     (if num_gt width 0 \<and> num_le width double_0_17 then [0x2009]
      else if num_gt width double_0_17 \<and> num_le width double_0_23 then [0x2005]
      else if num_gt width double_0_23 \<and> num_le width double_0_28 then [0x2004]
      else if num_gt width double_0_28 \<and> num_le width (1 / 2) then [0x2004]
      else if num_gt width (1 / 2) \<and> num_le width double_1_8 then [0x2001]
      else if num_gt width double_1_8 then [0x2001, 0x2001]
      else [0x200B])"

text \<open>
  The loop of the \<open>EDelimited\<close> case: \<open>currentGroup\<close> collects the sub-expressions up to the
  next separator; an empty group is never pushed.
\<close>

fun delimGroups :: "Exp InEDelimited list \<Rightarrow> Exp list \<Rightarrow> Exp list list \<Rightarrow> Exp list list" where
  "delimGroups [] currentGroup elements =
     (if length currentGroup > 0 then elements @ [currentGroup] else elements)"
| "delimGroups (item # items) currentGroup elements =
     (case item of
        Left _ \<Rightarrow>
          (if length currentGroup > 0 then delimGroups items [] (elements @ [currentGroup])
           else delimGroups items currentGroup elements)
      | Right e \<Rightarrow> delimGroups items (currentGroup @ [e]) elements)"

definition separators :: "Exp InEDelimited list \<Rightarrow> jstring list" where
  "separators content = concat (map (\<lambda>item. case item of Left v \<Rightarrow> [v] | Right _ \<Rightarrow> []) content)"

definition strokes :: "StrokeType \<Rightarrow> XMLNode list" where
  "strokes strokeType =
     (if strokeType = ForwardSlash \<or> strokeType = XSlash
      then [createNodeWithVal (lit ''strikeBLTR'') (lit ''1'') []] else [])
     @ (if strokeType = BackSlash \<or> strokeType = XSlash
        then [createNodeWithVal (lit ''strikeTLBR'') (lit ''1'') []] else [])"

definition mProps :: "Alignment list \<Rightarrow> XMLNode" where
  "mProps alignments =
     createNode (lit ''mPr'') []
       [createNodeWithVal (lit ''baseJc'') (lit ''center'') [],
        createNodeWithVal (lit ''plcHide'') (lit ''on'') [],
        createNode (lit ''mcs'') []
          (map (\<lambda>align.
             createNode (lit ''mc'') []
               [createNode (lit ''mcPr'') []
                  [createNodeWithVal (lit ''mcJc'') (alignStr align) [],
                   createNodeWithVal (lit ''count'') (lit ''1'') []]]) alignments)]"

definition isEmptyGroup :: "Exp \<Rightarrow> bool" where
  "isEmptyGroup e = (case e of EGrouped v \<Rightarrow> length v = 0 | _ \<Rightarrow> False)"

definition onOff :: "bool \<Rightarrow> jstring" where
  "onOff b = (if b then lit ''on'' else lit ''off'')"

text \<open>
  The weight of an expression bounds the recursion of \<open>showExp\<close>: the \<open>EUnderover\<close> case builds
  \<open>EOver c (EUnder c base under) over\<close> and calls \<open>showExp\<close> on that new tree, which is
  larger in size but smaller in weight.
\<close>

fun weight :: "Exp \<Rightarrow> nat" where
  "weight (ENumber _) = 1"
| "weight (EGrouped es) = Suc (sum_list (map weight es))"
| "weight (EDelimited _ _ content) =
     Suc (sum_list (map (\<lambda>item. case item of Left _ \<Rightarrow> 0 | Right e \<Rightarrow> weight e) content))"
| "weight (EIdentifier _) = 1"
| "weight (EMathOperator _) = 1"
| "weight (ESymbol _ _) = 1"
| "weight (ESpace _) = 1"
| "weight (ESub b s) = Suc (weight b + weight s)"
| "weight (ESuper b s) = Suc (weight b + weight s)"
| "weight (ESubsup b s p) = Suc (weight b + weight s + weight p)"
| "weight (EOver _ b v) = Suc (weight b + weight v)"
| "weight (EUnder _ b u) = Suc (weight b + weight u)"
| "weight (EUnderover _ b u v) = 3 + (weight b + weight u + weight v)"
| "weight (EPhantom e) = Suc (weight e)"
| "weight (EBoxed e) = Suc (weight e)"
| "weight (ECancel _ e) = Suc (weight e)"
| "weight (EFraction _ n d) = Suc (weight n + weight d)"
| "weight (ERoot i b) = Suc (weight i + weight b)"
| "weight (ESqrt e) = Suc (weight e)"
| "weight (EScaled _ e) = Suc (weight e)"
| "weight (EArray _ lines) =
     Suc (sum_list (map (\<lambda>line. sum_list (map (\<lambda>cell. sum_list (map weight cell)) line)) lines))"
| "weight (EText _ _) = 1"
| "weight (EStyled _ es) = Suc (sum_list (map weight es))"


lemma delimGroups_mem:
  "g \<in> set (delimGroups content cur els) \<Longrightarrow> e \<in> set g \<Longrightarrow>
     (\<exists>g' \<in> set els. e \<in> set g') \<or> e \<in> set cur \<or> Right e \<in> set content"
proof (induction content cur els rule: delimGroups.induct)
  case (1 currentGroup elements)
  then show ?case by (auto split: if_splits)
next
  case (2 item items currentGroup elements)
  then show ?case by (cases item) (auto split: if_splits)
qed

lemma sum_list_map_mem_le: "x \<in> set xs \<Longrightarrow> (f x :: nat) \<le> sum_list (map f xs)"
  by (induction xs) auto

lemma weight_Right_le:
  "Right e \<in> set content \<Longrightarrow>
     weight e \<le> sum_list (map (\<lambda>item. case item of Left _ \<Rightarrow> 0 | Right e \<Rightarrow> weight e) content)"
  using sum_list_map_mem_le [of "Right e" content "\<lambda>item. case item of Left _ \<Rightarrow> 0 | Right e \<Rightarrow> weight e"]
  by simp

lemma weight_mem_le: "e \<in> set es \<Longrightarrow> weight e \<le> sum_list (map weight es)"
  by (rule sum_list_map_mem_le)

lemma weight_cell_le:
  assumes "e \<in> set cell" and "cell \<in> set row" and "row \<in> set rows"
  shows "weight e \<le> sum_list (map (\<lambda>line. sum_list (map (\<lambda>cell. sum_list (map weight cell)) line)) rows)"
proof -
  have "weight e \<le> sum_list (map weight cell)"
    using assms(1) by (rule sum_list_map_mem_le)
  also have "\<dots> \<le> sum_list (map (\<lambda>cell. sum_list (map weight cell)) row)"
    using assms(2) by (rule sum_list_map_mem_le)
  also have "\<dots> \<le> sum_list (map (\<lambda>line. sum_list (map (\<lambda>cell. sum_list (map weight cell)) line)) rows)"
    using assms(3) by (rule sum_list_map_mem_le)
  finally show ?thesis .
qed

lemma delimGroups_weight:
  assumes "g \<in> set (delimGroups content [] [])" and "e \<in> set g"
  shows "weight e \<le> sum_list (map (\<lambda>item. case item of Left _ \<Rightarrow> 0 | Right e \<Rightarrow> weight e) content)"
proof -
  from delimGroups_mem [OF assms] have "Right e \<in> set content" by simp
  then show ?thesis by (rule weight_Right_le)
qed

lemma weight_pair:
  "length v = 2 \<Longrightarrow> sum_list (map weight v) = weight (v ! 0) + weight (v ! Suc 0)"
  by (cases v; cases "tl v") auto

function showExp :: "XMLNode list \<Rightarrow> Exp \<Rightarrow> XMLNode list"
  and showFraction :: "XMLNode list \<Rightarrow> FractionType \<Rightarrow> Exp \<Rightarrow> Exp \<Rightarrow> XMLNode"
  and makeArray :: "XMLNode list \<Rightarrow> Alignment list \<Rightarrow> Exp list list list \<Rightarrow> XMLNode"
  and makeNary :: "XMLNode list \<Rightarrow> jstring \<Rightarrow> jstring \<Rightarrow> Exp \<Rightarrow> Exp \<Rightarrow> Exp \<Rightarrow> XMLNode"
  and makeCancel :: "XMLNode list \<Rightarrow> StrokeType \<Rightarrow> Exp \<Rightarrow> XMLNode"
where
  "showExp props (ENumber v) = [str props v]"
| "showExp props (EGrouped v) =
     (if length v = 0 then [str props [0x200B]]
      else if length v = 2 then
        (case v ! 0 of
           EUnderover c b u ov \<Rightarrow>
             (if isNary b then [makeNary props (lit ''undOvr'') (symValue b) u ov (v ! 1)]
              else concat (map (showExp props) v))
         | ESubsup b sb sp \<Rightarrow>
             (if isNary b then [makeNary props (lit ''subSup'') (symValue b) sb sp (v ! 1)]
              else concat (map (showExp props) v))
         | _ \<Rightarrow> concat (map (showExp props) v))
      else concat (map (showExp props) v))"
| "showExp props (EDelimited opn cls content) =
     [createNode (lit ''d'') []
        (createNode (lit ''dPr'') []
           [createNodeWithVal (lit ''begChr'') opn [],
            createNodeWithVal (lit ''sepChr'')
              (if length (separators content) > 0 then separators content ! 0 else []) [],
            createNodeWithVal (lit ''endChr'') cls [],
            createNode (lit ''grow'') [] []]
         # map (\<lambda>group. createNode (lit ''e'') [] (concat (map (showExp props) group)))
             (delimGroups content [] []))]"
| "showExp props (EIdentifier v) =
     (if v = [] then [str props [0x200B]]
      else if isUppercaseGreek v \<and> length props = 0
      then [str [createNodeWithVal (lit ''sty'') (lit ''p'') []] v]
      else [str props v])"
| "showExp props (EMathOperator v) =
     [str (createNodeWithVal (lit ''sty'') (lit ''p'') [] # props) v]"
| "showExp props (ESymbol st v) =
     (if length v = 1 \<and> \<not> isWordChar (v ! 0) \<and> \<not> isSpaceChar (v ! 0)
      then [str (defaultTo TextNormal props) v]
      else if st \<in> set [Op, Bin, Rel]
      then [createNode (lit ''box'') []
              [createNode (lit ''boxPr'') [] [createNodeWithVal (lit ''opEmu'') (lit ''on'') []],
               createNode (lit ''e'') [] [str (defaultTo TextNormal props) v]]]
      else [str (defaultTo TextNormal props) v])"
| "showExp props (ESpace width) = [str props (spaceChar width)]"
| "showExp props (EUnder c b u) =
     (case u of
        ESymbol st v \<Rightarrow>
          (if st = TUnder \<and> isBarChar v
           then [createNode (lit ''bar'') []
                   [createNode (lit ''barPr'') [] [createNodeWithVal (lit ''pos'') (lit ''bot'') []],
                    createNode (lit ''e'') [] (showExp props b)]]
           else if st = TUnder
           then [createNode (lit ''groupChr'') []
                   [createNode (lit ''groupChrPr'') []
                      [createNodeWithVal (lit ''chr'') v [],
                       createNodeWithVal (lit ''pos'') (lit ''bot'') [],
                       createNodeWithVal (lit ''vertJc'') (lit ''top'') []],
                    createNode (lit ''e'') [] (showExp props b)]]
           else [createNode (lit ''limLow'') []
                   [createNode (lit ''e'') [] (showExp props b),
                    createNode (lit ''lim'') [] (showExp props u)]])
      | _ \<Rightarrow>
          [createNode (lit ''limLow'') []
             [createNode (lit ''e'') [] (showExp props b),
              createNode (lit ''lim'') [] (showExp props u)]])"
| "showExp props (EOver c b ov) =
     (case ov of
        ESymbol st v \<Rightarrow>
          (if st = TOver \<and> isBarChar v
           then [createNode (lit ''bar'') []
                   [createNode (lit ''barPr'') [] [createNodeWithVal (lit ''pos'') (lit ''top'') []],
                    createNode (lit ''e'') [] (showExp props b)]]
           else if st = Accent
           then [createNode (lit ''acc'') []
                   [createNode (lit ''accPr'') [] [createNodeWithVal (lit ''chr'') v []],
                    createNode (lit ''e'') [] (showExp props b)]]
           else if st = TOver
           then [createNode (lit ''groupChr'') []
                   [createNode (lit ''groupChrPr'') []
                      [createNodeWithVal (lit ''chr'') v [],
                       createNodeWithVal (lit ''pos'') (lit ''top'') [],
                       createNodeWithVal (lit ''vertJc'') (lit ''bot'') []],
                    createNode (lit ''e'') [] (showExp props b)]]
           else [createNode (lit ''limUpp'') []
                   [createNode (lit ''e'') [] (showExp props b),
                    createNode (lit ''lim'') [] (showExp props ov)]])
      | _ \<Rightarrow>
          [createNode (lit ''limUpp'') []
             [createNode (lit ''e'') [] (showExp props b),
              createNode (lit ''lim'') [] (showExp props ov)]])"
| "showExp props (EUnderover c b u ov) = showExp props (EOver c (EUnder c b u) ov)"
| "showExp props (ESub b sb) =
     [createNode (lit ''sSub'') []
        [createNode (lit ''e'') [] (showExp props b),
         createNode (lit ''sub'') [] (showExp props sb)]]"
| "showExp props (ESuper b sp) =
     [createNode (lit ''sSup'') []
        [createNode (lit ''e'') [] (showExp props b),
         createNode (lit ''sup'') [] (showExp props sp)]]"
| "showExp props (ESubsup b sb sp) =
     [createNode (lit ''sSubSup'') []
        [createNode (lit ''e'') [] (showExp props b),
         createNode (lit ''sub'') [] (showExp props sb),
         createNode (lit ''sup'') [] (showExp props sp)]]"
| "showExp props (ESqrt v) =
     [createNode (lit ''rad'') []
        [createNode (lit ''radPr'') [] [createNodeWithVal (lit ''degHide'') (lit ''on'') []],
         createNode (lit ''deg'') [] [],
         createNode (lit ''e'') [] (showExp props v)]]"
| "showExp props (ERoot idx b) =
     [createNode (lit ''rad'') []
        [createNode (lit ''deg'') [] (showExp props idx),
         createNode (lit ''e'') [] (showExp props b)]]"
| "showExp props (EFraction ft n d) = [showFraction props ft n d]"
| "showExp props (EPhantom v) =
     [createNode (lit ''phant'') []
        [createNode (lit ''phantPr'') [] [createNodeWithVal (lit ''show'') (lit ''off'') []],
         createNode (lit ''e'') [] (showExp props v)]]"
| "showExp props (EBoxed v) =
     [createNode (lit ''borderBox'') [] [createNode (lit ''e'') [] (showExp props v)]]"
| "showExp props (ECancel st v) = [makeCancel props st v]"
| "showExp props (EScaled sc v) = showExp props v"
| "showExp props (EArray alignments lines) = [makeArray props alignments lines]"
| "showExp props (EText tt v) = [makeText tt v]"
| "showExp props (EStyled tt v) = concat (map (showExp (setProps tt)) v)"
| "showFraction props ft numerator denominator =
     createNode (lit ''f'') []
       [createNode (lit ''fPr'') []
          [createNodeWithVal (lit ''type'')
             (if ft = InlineFrac then lit ''lin'' else if ft = NoLineFrac then lit ''noBar''
              else lit ''bar'') []],
        createNode (lit ''num'') [] (showExp props numerator),
        createNode (lit ''den'') [] (showExp props denominator)]"
| "makeArray props alignments lines =
     createNode (lit ''m'') []
       (mProps alignments
        # map (\<lambda>line.
            createNode (lit ''mr'') []
              (map (\<lambda>cell. createNode (lit ''e'') [] (concat (map (showExp props) cell))) line))
          lines)"
| "makeNary props limLoc symbol subE supE baseE =
     createNode (lit ''nary'') []
       [createNode (lit ''naryPr'') []
          [createNodeWithVal (lit ''chr'') symbol [],
           createNodeWithVal (lit ''limLoc'') limLoc [],
           createNodeWithVal (lit ''subHide'') (onOff (isEmptyGroup subE)) [],
           createNodeWithVal (lit ''supHide'') (onOff (isEmptyGroup supE)) []],
        createNode (lit ''sub'') [] (showExp props subE),
        createNode (lit ''sup'') [] (showExp props supE),
        createNode (lit ''e'') [] (showExp props baseE)]"
| "makeCancel props strokeType e =
     createNode (lit ''borderBox'') []
       [createNode (lit ''borderBoxPr'') []
          ([createNodeWithVal (lit ''hideTop'') (lit ''1'') [],
            createNodeWithVal (lit ''hideBot'') (lit ''1'') [],
            createNodeWithVal (lit ''hideLeft'') (lit ''1'') [],
            createNodeWithVal (lit ''hideRight'') (lit ''1'') []] @ strokes strokeType),
        createNode (lit ''e'') [] (showExp props e)]"
  by pat_completeness auto

termination
  apply (relation "measure (\<lambda>x. case x of
      Inl (Inl (props, e)) \<Rightarrow> 2 * weight e
    | Inl (Inr (props, ft, n, d)) \<Rightarrow> 2 * (weight n + weight d) + 1
    | Inr (Inl (props, al, rows)) \<Rightarrow>
        2 * sum_list (map (\<lambda>line. sum_list (map (\<lambda>cell. sum_list (map weight cell)) line)) rows) + 1
    | Inr (Inr (Inl (props, limLoc, symbol, subE, supE, baseE))) \<Rightarrow>
        2 * (weight subE + weight supE + weight baseE) + 1
    | Inr (Inr (Inr (props, st, e))) \<Rightarrow> 2 * weight e + 1)")
  apply (auto simp: weight_pair dest: weight_mem_le weight_cell_le delimGroups_weight)
  done

text \<open>
  The pre-pass of the writer.  The source walks the array by index and skips the element
  after a merged n-ary operator with \<open>i++\<close>; \<open>nextOf rest\<close> is \<open>exps[i + 1]\<close> or the
  empty group, and \<open>tl rest\<close> is the rest after the skipped element.
\<close>

definition nextOf :: "Exp list \<Rightarrow> Exp" where
  "nextOf rest = (case rest of [] \<Rightarrow> EGrouped [] | n # _ \<Rightarrow> n)"

fun handleDownup :: "DisplayType \<Rightarrow> Exp list \<Rightarrow> Exp list" where
  "handleDownup dt [] = []"
| "handleDownup dt (e # rest) =
     (case e of
        EOver c b ov \<Rightarrow>
          (if isNary b
           then EGrouped [EUnderover c b (EGrouped []) ov, nextOf rest] # handleDownup dt (tl rest)
           else e # handleDownup dt rest)
      | EUnder c b u \<Rightarrow>
          (if isNary b
           then EGrouped [EUnderover c b u (EGrouped []), nextOf rest] # handleDownup dt (tl rest)
           else e # handleDownup dt rest)
      | EUnderover c b u ov \<Rightarrow>
          (if isNary b then EGrouped [e, nextOf rest] # handleDownup dt (tl rest)
           else e # handleDownup dt rest)
      | ESub b sb \<Rightarrow>
          (if isNary b
           then EGrouped [ESubsup b sb (EGrouped []), nextOf rest] # handleDownup dt (tl rest)
           else e # handleDownup dt rest)
      | ESuper b sp \<Rightarrow>
          (if isNary b
           then EGrouped [ESubsup b (EGrouped []) sp, nextOf rest] # handleDownup dt (tl rest)
           else e # handleDownup dt rest)
      | ESubsup b sb sp \<Rightarrow>
          (if isNary b then EGrouped [e, nextOf rest] # handleDownup dt (tl rest)
           else e # handleDownup dt rest)
      | _ \<Rightarrow> e # handleDownup dt rest)"

definition rootNode :: "DisplayType \<Rightarrow> XMLNode list \<Rightarrow> XMLNode" where
  "rootNode dt nodes =
     (if dt = DisplayBlock
      then createNode (lit ''oMathPara'') []
             [createNode (lit ''oMathParaPr'') [] [createNodeWithVal (lit ''jc'') (lit ''center'') []],
              createNode (lit ''oMath'') [] nodes]
      else createNode (lit ''oMath'') [] nodes)"

definition writeOMML :: "DisplayType \<Rightarrow> Exp list \<Rightarrow> jstring" where
  "writeOMML dt exps =
     nodeToString (rootNode dt (concat (map (showExp []) (handleDownup dt exps)))) 0"


section \<open>The post-pass of the parser (reader.ts, fixBinList)\<close>

text \<open>
  One iteration of the loop of \<open>fixBinList\<close>: \<open>result\<close> is the array built so far and
  \<open>e\<close> is \<open>exps[i]\<close>.  The assignment \<open>result[result.length - 1] = {...prev, symbolType: 'Ord'}\<close>
  is the list update; the spread keeps the value of the symbol.
\<close>

definition fixBinStep :: "Exp list \<Rightarrow> Exp \<Rightarrow> Exp list" where
  "fixBinStep result e =
     (case e of
        ESymbol st v \<Rightarrow>
          (if st = Bin then
             (if length result = 0 then result @ [ESymbol Ord v]
              else (case result ! (length result - 1) of
                      ESymbol pst pv \<Rightarrow>
                        (if pst \<in> set [Bin, Op, Rel, Open, Pun] then result @ [ESymbol Ord v]
                         else result @ [e])
                    | _ \<Rightarrow> result @ [e]))
           else if st \<in> set [Rel, Close, Pun] then
             (if length result > 0 then
                (case result ! (length result - 1) of
                   ESymbol pst pv \<Rightarrow>
                     (if pst = Bin then result[length result - 1 := ESymbol Ord pv] @ [e]
                      else result @ [e])
                 | _ \<Rightarrow> result @ [e])
              else result @ [e])
           else result @ [e])
      | _ \<Rightarrow> result @ [e])"

definition fixBinList :: "Exp list \<Rightarrow> Exp list" where
  "fixBinList exps = foldl fixBinStep [] exps"


section \<open>The parser (reader.ts)\<close>

subsection \<open>Lookup tables, errors and results\<close>

text \<open>
  The reader imports five lookup tables from \<open>commands.ts\<close>, which is not part of the sources
  at hand.  They are a parameter of the parser: \<open>k in table\<close> is \<open>table k \<noteq> None\<close> and
  \<open>table[k]\<close> is the value, \<open>undefined\<close> being \<open>None\<close>.  Every key the parser looks up starts
  with a backslash or is at most four characters of punctuation, so no inherited property of
  a JavaScript object is ever found by \<open>in\<close>.
\<close>

record tables =
  symbols :: "jstring \<rightharpoonup> Exp"
  operators :: "jstring \<rightharpoonup> Exp"
  enclosures :: "jstring \<rightharpoonup> Exp"
  styleOps :: "jstring \<rightharpoonup> (Exp list \<Rightarrow> Exp)"
  textOps :: "jstring \<rightharpoonup> (jstring \<Rightarrow> Exp)"

text \<open>\<open>ParseError message position\<close>, the only exception class of the reader.\<close>

datatype ParseError = ParseError jstring nat

text \<open>
  The parser is a class with a mutable cursor \<open>pos\<close> over the immutable \<open>input\<close>.  A method
  becomes a function from the cursor before the call to a result: \<open>Ok v pos\<close> is the returned
  value with the cursor after the call, \<open>Throw e\<close> is a raised exception, and \<open>OutOfFuel\<close>
  says that the bound on the recursion depth and on the loop iterations was reached.  The
  values \<open>null\<close> and \<open>undefined\<close> are \<open>None\<close>.
\<close>

datatype 'a result = Ok 'a nat | Throw ParseError | OutOfFuel

definition andThen :: "'a result \<Rightarrow> ('a \<Rightarrow> nat \<Rightarrow> 'b result) \<Rightarrow> 'b result" where
  "andThen m f = (case m of Ok a p \<Rightarrow> f a p | Throw e \<Rightarrow> Throw e | OutOfFuel \<Rightarrow> OutOfFuel)"

text \<open>\<open>a ?? b\<close>: the right operand runs, from the cursor the left one left, when \<open>a\<close> is null.\<close>

definition orElse :: "'a option result \<Rightarrow> (nat \<Rightarrow> 'a option result) \<Rightarrow> 'a option result" where
  "orElse m f = andThen m (\<lambda>r p. case r of Some x \<Rightarrow> Ok (Some x) p | None \<Rightarrow> f p)"

text \<open>
  \<open>readBraces<T>\<close> returns \<open>T | null\<close>; when \<open>T\<close> itself contains null (a parser of
  \<open>Exp | null\<close>) the two nulls are the same value for the caller.
\<close>

definition flatten :: "'a option option \<Rightarrow> 'a option" where
  "flatten r = (case r of Some x \<Rightarrow> x | None \<Rightarrow> None)"

subsection \<open>The cursor\<close>

definition peek :: "jstring \<Rightarrow> nat \<Rightarrow> nat option" where
  "peek inp pos = (if pos \<ge> length inp then None else Some (inp ! pos))"

text \<open>
  \<open>input.substring(a, b)\<close> and the test \<open>input.substr(pos, s.length) === s\<close> of \<open>match\<close>
  and \<open>parseOperator\<close>.
\<close>

definition substring :: "jstring \<Rightarrow> nat \<Rightarrow> nat \<Rightarrow> jstring" where
  "substring inp a b =
     take (max (min a (length inp)) (min b (length inp)) - min (min a (length inp)) (min b (length inp)))
       (drop (min (min a (length inp)) (min b (length inp))) inp)"

definition matches :: "jstring \<Rightarrow> jstring \<Rightarrow> nat \<Rightarrow> bool" where
  "matches s inp pos \<longleftrightarrow> take (length s) (drop pos inp) = s"

text \<open>
  Each loop \<open>while (peek() is a character satisfying P) advance()\<close>: white space, the rest of a
  comment line, letters, digits, primes, the text up to a closing brace.
\<close>

function skipWhile :: "(nat \<Rightarrow> bool) \<Rightarrow> jstring \<Rightarrow> nat \<Rightarrow> nat" where
  "skipWhile P inp pos =
     (if pos < length inp \<and> P (inp ! pos) then skipWhile P inp (pos + 1) else pos)"
  by pat_completeness auto
termination
  by (relation "measure (\<lambda>(P, inp, pos). length inp - pos)") auto

declare skipWhile.simps [simp del]

lemma skipWhile_ge: "pos \<le> skipWhile P inp pos"
proof (induction P inp pos rule: skipWhile.induct)
  case (1 P inp pos)
  then show ?case by (subst skipWhile.simps) auto
qed

lemma skipWhile_step:
  "pos < length inp \<Longrightarrow> P (inp ! pos) \<Longrightarrow> pos < skipWhile P inp pos"
  using skipWhile_ge [of "pos + 1" P inp] by (subst skipWhile.simps) simp

definition skipWhitespace :: "jstring \<Rightarrow> nat \<Rightarrow> nat" where
  "skipWhitespace inp pos = skipWhile isSpaceChar inp pos"

function skipIgnorable :: "jstring \<Rightarrow> nat \<Rightarrow> nat" where
  "skipIgnorable inp pos =
     (if peek inp (skipWhitespace inp pos) = Some 37
      then skipIgnorable inp
             (if peek inp (skipWhile (\<lambda>c. c \<noteq> 10) inp (skipWhitespace inp pos)) = Some 10
              then skipWhile (\<lambda>c. c \<noteq> 10) inp (skipWhitespace inp pos) + 1
              else skipWhile (\<lambda>c. c \<noteq> 10) inp (skipWhitespace inp pos))
      else skipWhitespace inp pos)"
  by pat_completeness auto
termination
proof (relation "measure (\<lambda>(inp, pos). length inp - pos)", goal_cases)
  case 1
  then show ?case by simp
next
  case (2 inp pos)
  let ?p = "skipWhitespace inp pos"
  let ?q = "skipWhile (\<lambda>c. c \<noteq> 10) inp ?p"
  from 2 have lt: "?p < length inp" and at: "inp ! ?p = 37"
    by (auto simp: peek_def split: if_splits)
  have "pos \<le> ?p" by (simp add: skipWhitespace_def skipWhile_ge)
  moreover have "?p < ?q" using lt at by (intro skipWhile_step) auto
  ultimately show ?case using lt by auto
qed

declare skipIgnorable.simps [simp del]

definition readControlSequence :: "jstring \<Rightarrow> nat \<Rightarrow> jstring option \<times> nat" where
  "readControlSequence inp pos =
     (if peek inp pos \<noteq> Some 92 then (None, pos)
      else (case peek inp (pos + 1) of
              Some firstChar \<Rightarrow>
                (if \<not> isLetter firstChar then (Some [92, firstChar], pos + 2)
                 else if skipWhile isLetter inp (pos + 1) = pos + 1
                 then (None, skipWhile isLetter inp (pos + 1))
                 else (Some (92 # substring inp (pos + 1) (skipWhile isLetter inp (pos + 1))),
                       skipWhile isLetter inp (pos + 1)))
            | None \<Rightarrow> (None, pos + 1)))"

definition readBraces :: "jstring \<Rightarrow> (nat \<Rightarrow> 'a result) \<Rightarrow> nat \<Rightarrow> 'a option result" where
  "readBraces inp parser pos =
     (if peek inp (skipIgnorable inp pos) \<noteq> Some 123 then Ok None (skipIgnorable inp pos)
      else andThen (parser (skipIgnorable inp (skipIgnorable inp pos + 1)))
             (\<lambda>r p.
                if peek inp (skipIgnorable inp p) \<noteq> Some 125
                then Throw (ParseError (lit ''Expected closing brace'') (skipIgnorable inp p))
                else Ok (Some r) (skipIgnorable inp (skipIgnorable inp p + 1))))"

definition readBrackets :: "jstring \<Rightarrow> (nat \<Rightarrow> 'a result) \<Rightarrow> nat \<Rightarrow> 'a option result" where
  "readBrackets inp parser pos =
     (if peek inp (skipIgnorable inp pos) \<noteq> Some 91 then Ok None (skipIgnorable inp pos)
      else andThen (parser (skipIgnorable inp (skipIgnorable inp pos + 1)))
             (\<lambda>r p.
                if peek inp (skipIgnorable inp p) \<noteq> Some 93
                then Throw (ParseError (lit ''Expected closing bracket'') (skipIgnorable inp p))
                else Ok (Some r) (skipIgnorable inp (skipIgnorable inp p + 1))))"

subsection \<open>Parsers that do not recurse\<close>

text \<open>
  \<open>parseNumber\<close>: \<open>start\<close> is the cursor after the leading blanks, \<open>hasDigits\<close> says that
  the first digit loop ran.  The value is cut from \<open>start\<close> to the cursor after the trailing
  \<open>skipIgnorable\<close>, as in the source.
\<close>

definition numberEnd :: "jstring \<Rightarrow> nat \<Rightarrow> nat \<Rightarrow> Exp option result" where
  "numberEnd inp start pos =
     (if pos = start then Ok None pos
      else Ok (Some (ENumber (substring inp start (skipIgnorable inp pos)))) (skipIgnorable inp pos))"

definition parseNumber :: "jstring \<Rightarrow> nat \<Rightarrow> Exp option result" where
  "parseNumber inp pos =
     (let start = skipIgnorable inp pos;
          dotPos = skipWhile isDigit inp start;
          hasDigits = (dotPos \<noteq> start)
      in if peek inp dotPos = Some 46
         then (if (case peek inp (dotPos + 1) of Some c \<Rightarrow> isDigit c | None \<Rightarrow> False)
               then numberEnd inp start (skipWhile isDigit inp (dotPos + 1))
               else if \<not> hasDigits then Ok None dotPos
               else numberEnd inp start (dotPos + 1))
         else numberEnd inp start dotPos)"

definition parseVariable :: "jstring \<Rightarrow> nat \<Rightarrow> Exp option result" where
  "parseVariable inp pos =
     (case peek inp (skipIgnorable inp pos) of
        Some char \<Rightarrow>
          (if isLetter char
           then Ok (Some (EIdentifier [char])) (skipIgnorable inp (skipIgnorable inp pos + 1))
           else Ok None (skipIgnorable inp pos))
      | None \<Rightarrow> Ok None (skipIgnorable inp pos))"

text \<open>
  \<open>parseOperator\<close> returns \<open>operators[op]\<close> for the prime sequences without asking
  \<open>op in operators\<close>: a table without the entry gives \<open>undefined\<close> with the cursor advanced.
\<close>

definition parseOperator :: "tables \<Rightarrow> jstring \<Rightarrow> nat \<Rightarrow> Exp option result" where
  "parseOperator T inp pos =
     (let p = skipIgnorable inp pos
      in if matches [39, 39, 39, 39] inp p then Ok (operators T [39, 39, 39, 39]) (skipIgnorable inp (p + 4))
         else if matches [39, 39, 39] inp p then Ok (operators T [39, 39, 39]) (skipIgnorable inp (p + 3))
         else if matches [39, 39] inp p then Ok (operators T [39, 39]) (skipIgnorable inp (p + 2))
         else if matches [39] inp p then Ok (operators T [39]) (skipIgnorable inp (p + 1))
         else (case peek inp p of
                 Some char \<Rightarrow>
                   (if operators T [char] \<noteq> None
                    then Ok (operators T [char]) (skipIgnorable inp (p + 1))
                    else Ok None p)
               | None \<Rightarrow> Ok None p))"

definition parseEnclosure :: "tables \<Rightarrow> jstring \<Rightarrow> nat \<Rightarrow> Exp option result" where
  "parseEnclosure T inp pos =
     (case peek inp pos of
        Some char \<Rightarrow>
          (if char \<in> set (lit ''()[]|'') \<and> enclosures T [char] \<noteq> None
           then Ok (enclosures T [char]) (skipIgnorable inp (pos + 1))
           else Ok None pos)
      | None \<Rightarrow> Ok None pos)"

text \<open>
  \<open>parseDelimiter\<close>: the control sequence read in the second step stays consumed when it is
  no enclosure; the single-character test then looks at the character after it.
\<close>

definition delimiterChar :: "jstring \<Rightarrow> nat \<Rightarrow> jstring option result" where
  "delimiterChar inp pos =
     (case peek inp pos of
        Some char \<Rightarrow>
          (if char \<in> set (lit ''()[]|'') then Ok (Some [char]) (skipIgnorable inp (pos + 1))
           else Ok None pos)
      | None \<Rightarrow> Ok None pos)"

definition parseDelimiter :: "tables \<Rightarrow> jstring \<Rightarrow> nat \<Rightarrow> jstring option result" where
  "parseDelimiter T inp pos =
     (if peek inp (skipIgnorable inp pos) = Some 46
      then Ok (Some []) (skipIgnorable inp (skipIgnorable inp pos + 1))
      else (case readControlSequence inp (skipIgnorable inp pos) of
              (cmd, p) \<Rightarrow>
                (case (case cmd of Some c \<Rightarrow> enclosures T c | None \<Rightarrow> None) of
                   Some enc \<Rightarrow>
                     (case enc of
                        ESymbol st v \<Rightarrow> Ok (Some v) (skipIgnorable inp p)
                      | _ \<Rightarrow> delimiterChar inp (skipIgnorable inp p))
                 | None \<Rightarrow> delimiterChar inp p)))"

text \<open>The callback that reads the raw text up to the next closing brace.\<close>

definition readUntilBrace :: "jstring \<Rightarrow> nat \<Rightarrow> jstring result" where
  "readUntilBrace inp pos =
     Ok (substring inp pos (skipWhile (\<lambda>c. c \<noteq> 125) inp pos)) (skipWhile (\<lambda>c. c \<noteq> 125) inp pos)"

text \<open>
  \<open>parseTextOp\<close> and \<open>parseStyleOp\<close> are called after \<open>cmd in textOps\<close> and
  \<open>cmd in styleOps\<close>; they receive the operation \<open>op\<close> that the source looks up again.
\<close>

definition parseTextOp :: "(jstring \<Rightarrow> Exp) \<Rightarrow> jstring \<Rightarrow> nat \<Rightarrow> Exp option result" where
  "parseTextOp op inp pos =
     andThen (readBraces inp (readUntilBrace inp) pos)
       (\<lambda>text p. case text of Some t \<Rightarrow> Ok (Some (op t)) p | None \<Rightarrow> Ok None p)"

definition parseHSpace :: "jstring \<Rightarrow> nat \<Rightarrow> Exp option result" where
  "parseHSpace inp pos =
     andThen (readBraces inp (readUntilBrace inp) pos)
       (\<lambda>width p. case width of
          Some w \<Rightarrow> (if w \<noteq> [] then Ok (Some (ESpace (Num double_0_33))) p else Ok None p)
        | None \<Rightarrow> Ok None p)"

fun expToText :: "Exp \<Rightarrow> jstring" where
  "expToText (EIdentifier v) = v"
| "expToText (ENumber v) = v"
| "expToText (EMathOperator v) = v"
| "expToText (EText _ v) = v"
| "expToText (ESymbol _ v) = v"
| "expToText (EGrouped es) = concat (map expToText es)"
| "expToText _ = []"

text \<open>\<open>s.includes(t)\<close>.\<close>

fun includesStr :: "jstring \<Rightarrow> jstring \<Rightarrow> bool" where
  "includesStr [] t = (t = [])"
| "includesStr (c # s) t = (take (length t) (c # s) = t \<or> includesStr s t)"

subsection \<open>The recursive descent\<close>

text \<open>
  Every cycle of calls among the methods of the parser passes through \<open>parseExpr\<close> or
  \<open>parseExpr1\<close>.  The other methods are written with these two as the parameters \<open>E\<close> and
  \<open>E1\<close>; \<open>parseExpr\<close> and \<open>parseExpr1\<close> are then defined by recursion on the fuel, each call
  spending one unit.  A \<open>while\<close> loop is a function with an iteration counter of its own, which
  starts at the fuel \<open>n\<close> of the method that runs the loop.
\<close>

text \<open>
  The loop of \<open>parseInBraces\<close>, \<open>parseStyleOp\<close> (both over \<open>parseExpr\<close>) and
  \<open>parseOperatorName\<close> (over \<open>parseExpr1\<close>): expressions up to a closing brace, the end
  of the input, or the first position where no expression is found.
\<close>

fun bracesLoop :: "nat \<Rightarrow> (nat \<Rightarrow> Exp option result) \<Rightarrow> jstring \<Rightarrow> Exp list \<Rightarrow> nat \<Rightarrow> Exp list result" where
  "bracesLoop 0 P inp exps pos = OutOfFuel"
| "bracesLoop (Suc n) P inp exps pos =
     (if peek inp pos \<noteq> Some 125 \<and> peek inp pos \<noteq> None
      then andThen (P pos)
             (\<lambda>e p. case e of Some x \<Rightarrow> bracesLoop n P inp (exps @ [x]) p | None \<Rightarrow> Ok exps p)
      else Ok exps pos)"

definition parseInBraces :: "nat \<Rightarrow> (nat \<Rightarrow> Exp option result) \<Rightarrow> jstring \<Rightarrow> nat \<Rightarrow> Exp option result" where
  "parseInBraces n E inp pos =
     andThen (readBraces inp (bracesLoop n E inp []) pos)
       (\<lambda>r p. case r of
          None \<Rightarrow> Ok None p
        | Some es \<Rightarrow>
            (if length es = 0 then Ok (Some (EGrouped [])) p
             else if length es = 1 then Ok (Some (es ! 0)) p
             else Ok (Some (EGrouped es)) p))"

text \<open>
  The loop of \<open>parseGroupedExpr\<close>: where no expression is found, one character is skipped,
  unless it is a closing brace or bracket.
\<close>

fun groupedLoop :: "nat \<Rightarrow> (nat \<Rightarrow> Exp option result) \<Rightarrow> jstring \<Rightarrow> Exp list \<Rightarrow> nat \<Rightarrow> Exp list result" where
  "groupedLoop 0 E inp exps pos = OutOfFuel"
| "groupedLoop (Suc n) E inp exps pos =
     (if peek inp pos \<noteq> Some 125 \<and> peek inp pos \<noteq> Some 93 \<and> peek inp pos \<noteq> None
      then andThen (E pos)
             (\<lambda>e p. case e of
                Some x \<Rightarrow> groupedLoop n E inp (exps @ [x]) p
              | None \<Rightarrow>
                  (case peek inp p of
                     Some char \<Rightarrow>
                       (if char \<noteq> 125 \<and> char \<noteq> 93 then groupedLoop n E inp exps (p + 1)
                        else Ok exps p)
                   | None \<Rightarrow> Ok exps p))
      else Ok exps pos)"

definition parseGroupedExpr :: "nat \<Rightarrow> (nat \<Rightarrow> Exp option result) \<Rightarrow> jstring \<Rightarrow> nat \<Rightarrow> Exp result" where
  "parseGroupedExpr n E inp pos =
     andThen (groupedLoop n E inp [] pos)
       (\<lambda>exps p.
          if length exps = 0 then Ok (EGrouped []) p
          else if length exps = 1 then Ok (exps ! 0) p
          else Ok (EGrouped exps) p)"

definition parseFrac ::
  "nat \<Rightarrow> (nat \<Rightarrow> Exp option result) \<Rightarrow> FractionType \<Rightarrow> jstring \<Rightarrow> nat \<Rightarrow> Exp option result" where
  "parseFrac n E fracType inp pos =
     andThen (readBraces inp (parseGroupedExpr n E inp) pos)
       (\<lambda>num p.
          andThen (readBraces inp (parseGroupedExpr n E inp) p)
            (\<lambda>den p'. case num of
               Some nu \<Rightarrow>
                 (case den of Some de \<Rightarrow> Ok (Some (EFraction fracType nu de)) p' | None \<Rightarrow> Ok None p')
             | None \<Rightarrow> Ok None p'))"

definition parseSqrt ::
  "nat \<Rightarrow> (nat \<Rightarrow> Exp option result) \<Rightarrow> (nat \<Rightarrow> Exp option result) \<Rightarrow> jstring \<Rightarrow> nat \<Rightarrow> Exp option result" where
  "parseSqrt n E E1 inp pos =
     andThen (readBrackets inp (parseGroupedExpr n E inp) pos)
       (\<lambda>index p.
          andThen (orElse (readBraces inp (parseGroupedExpr n E inp) p) E1)
            (\<lambda>base p'. case base of
               Some b \<Rightarrow>
                 (case index of Some i \<Rightarrow> Ok (Some (ERoot i b)) p' | None \<Rightarrow> Ok (Some (ESqrt b)) p')
             | None \<Rightarrow> Ok None p'))"

text \<open>\<open>readBraces(() => parseExpr1())\<close>, whose two nulls coincide.\<close>

definition bracedExpr1 :: "(nat \<Rightarrow> Exp option result) \<Rightarrow> jstring \<Rightarrow> nat \<Rightarrow> Exp option result" where
  "bracedExpr1 E1 inp pos = andThen (readBraces inp E1 pos) (\<lambda>r p. Ok (flatten r) p)"

definition parseOverset :: "(nat \<Rightarrow> Exp option result) \<Rightarrow> jstring \<Rightarrow> nat \<Rightarrow> Exp option result" where
  "parseOverset E1 inp pos =
     andThen (bracedExpr1 E1 inp pos)
       (\<lambda>over p.
          andThen (bracedExpr1 E1 inp p)
            (\<lambda>base p'. case over of
               Some ov \<Rightarrow>
                 (case base of Some b \<Rightarrow> Ok (Some (EOver False b ov)) p' | None \<Rightarrow> Ok None p')
             | None \<Rightarrow> Ok None p'))"

definition parseUnderset :: "(nat \<Rightarrow> Exp option result) \<Rightarrow> jstring \<Rightarrow> nat \<Rightarrow> Exp option result" where
  "parseUnderset E1 inp pos =
     andThen (bracedExpr1 E1 inp pos)
       (\<lambda>under p.
          andThen (bracedExpr1 E1 inp p)
            (\<lambda>base p'. case under of
               Some u \<Rightarrow>
                 (case base of Some b \<Rightarrow> Ok (Some (EUnder False b u)) p' | None \<Rightarrow> Ok None p')
             | None \<Rightarrow> Ok None p'))"

definition parseStackrel :: "(nat \<Rightarrow> Exp option result) \<Rightarrow> jstring \<Rightarrow> nat \<Rightarrow> Exp option result" where
  "parseStackrel E1 inp pos = parseOverset E1 inp pos"

definition parseBoxed :: "(nat \<Rightarrow> Exp option result) \<Rightarrow> jstring \<Rightarrow> nat \<Rightarrow> Exp option result" where
  "parseBoxed E1 inp pos =
     andThen (orElse (bracedExpr1 E1 inp pos) E1)
       (\<lambda>content p. case content of Some c \<Rightarrow> Ok (Some (EBoxed c)) p | None \<Rightarrow> Ok None p)"

definition parsePhantom :: "(nat \<Rightarrow> Exp option result) \<Rightarrow> jstring \<Rightarrow> nat \<Rightarrow> Exp option result" where
  "parsePhantom E1 inp pos =
     andThen (orElse (bracedExpr1 E1 inp pos) E1)
       (\<lambda>content p. case content of Some c \<Rightarrow> Ok (Some (EPhantom c)) p | None \<Rightarrow> Ok None p)"

definition parseCancel ::
  "(nat \<Rightarrow> Exp option result) \<Rightarrow> StrokeType \<Rightarrow> jstring \<Rightarrow> nat \<Rightarrow> Exp option result" where
  "parseCancel E1 strokeType inp pos =
     andThen (orElse (bracedExpr1 E1 inp pos) E1)
       (\<lambda>content p. case content of
          Some c \<Rightarrow> Ok (Some (ECancel strokeType c)) p
        | None \<Rightarrow> Ok None p)"

definition styleContent :: "(Exp list \<Rightarrow> Exp) \<Rightarrow> Exp list \<Rightarrow> nat \<Rightarrow> Exp option result" where
  "styleContent op content pos = (if length content > 0 then Ok (Some (op content)) pos else Ok None pos)"

definition parseStyleOp ::
  "nat \<Rightarrow> (nat \<Rightarrow> Exp option result) \<Rightarrow> (nat \<Rightarrow> Exp option result) \<Rightarrow> (Exp list \<Rightarrow> Exp)
     \<Rightarrow> jstring \<Rightarrow> nat \<Rightarrow> Exp option result" where
  "parseStyleOp n E E1 op inp pos =
     andThen (readBraces inp (bracesLoop n E inp []) pos)
       (\<lambda>r p. case r of
          Some content \<Rightarrow> styleContent op content p
        | None \<Rightarrow>
            andThen (E1 p)
              (\<lambda>e p'. styleContent op (case e of Some x \<Rightarrow> [x] | None \<Rightarrow> []) p'))"

definition parseOperatorName :: "nat \<Rightarrow> (nat \<Rightarrow> Exp option result) \<Rightarrow> jstring \<Rightarrow> nat \<Rightarrow> Exp option result" where
  "parseOperatorName n E1 inp pos =
     andThen
       (readBraces inp
          (\<lambda>p. andThen (bracesLoop n E1 inp [] p) (\<lambda>exps p'. Ok (concat (map expToText exps)) p'))
          (if peek inp pos = Some 42 then pos + 1 else pos))
       (\<lambda>name p. case name of
          Some nm \<Rightarrow> (if nm \<noteq> [] then Ok (Some (EMathOperator nm)) p else Ok None p)
        | None \<Rightarrow> Ok None p)"

text \<open>
  The loop of \<open>parseDelimited\<close>.  \<open>savedPos\<close> is the cursor after \<open>skipIgnorable\<close>; the cursor
  is reset to it unless the control sequence is \<open>\right\<close>, so \<open>parseDelimiter\<close> reads the
  token \<open>\middle\<close> again.
\<close>

fun delimitedLoop ::
  "nat \<Rightarrow> tables \<Rightarrow> (nat \<Rightarrow> Exp option result) \<Rightarrow> jstring \<Rightarrow> Exp InEDelimited list \<Rightarrow> nat
     \<Rightarrow> Exp InEDelimited list result" where
  "delimitedLoop 0 T E inp content pos = OutOfFuel"
| "delimitedLoop (Suc n) T E inp content pos =
     (case readControlSequence inp (skipIgnorable inp pos) of
        (cmd, p) \<Rightarrow>
          (if cmd = Some (92 # lit ''right'') then Ok content p
           else if cmd = Some (92 # lit ''middle'')
           then andThen (parseDelimiter T inp (skipIgnorable inp pos))
                  (\<lambda>delim p'. case delim of
                     Some d \<Rightarrow>
                       (if d \<noteq> [] then delimitedLoop n T E inp (content @ [Left d]) p'
                        else delimitedLoop n T E inp content p')
                   | None \<Rightarrow> delimitedLoop n T E inp content p')
           else andThen (E (skipIgnorable inp pos))
                  (\<lambda>e p'. case e of
                     Some x \<Rightarrow> delimitedLoop n T E inp (content @ [Right x]) p'
                   | None \<Rightarrow> Ok content p')))"

definition parseDelimited ::
  "nat \<Rightarrow> tables \<Rightarrow> (nat \<Rightarrow> Exp option result) \<Rightarrow> jstring \<Rightarrow> nat \<Rightarrow> Exp option result" where
  "parseDelimited n T E inp pos =
     andThen (parseDelimiter T inp pos)
       (\<lambda>opn p. case opn of
          None \<Rightarrow> Ok None p
        | Some opening \<Rightarrow>
            andThen (delimitedLoop n T E inp [] p)
              (\<lambda>content p'.
                 andThen (parseDelimiter T inp p')
                   (\<lambda>cls p''.
                      Ok (Some (EDelimited opening (case cls of Some c \<Rightarrow> c | None \<Rightarrow> []) content)) p'')))"

text \<open>
  The loop of \<open>parseArrayLine\<close>.  A successful \<open>match('\\\\')\<close> consumes the two backslashes.
  When no expression is found the loop ends without pushing the current cell.
\<close>

fun arrayLineLoop ::
  "nat \<Rightarrow> (nat \<Rightarrow> Exp option result) \<Rightarrow> jstring \<Rightarrow> Exp list list \<Rightarrow> Exp list \<Rightarrow> nat
     \<Rightarrow> Exp list list result" where
  "arrayLineLoop 0 E inp cells currentCell pos = OutOfFuel"
| "arrayLineLoop (Suc n) E inp cells currentCell pos =
     (if peek inp (skipIgnorable inp pos) = Some 38
      then arrayLineLoop n E inp (cells @ [currentCell]) [] (skipIgnorable inp pos + 1)
      else if matches [92, 92] inp (skipIgnorable inp pos)
      then Ok (cells @ [currentCell]) (skipIgnorable inp pos + 2)
      else if peek inp (skipIgnorable inp pos) = None
      then Ok (cells @ [currentCell]) (skipIgnorable inp pos)
      else if fst (readControlSequence inp (skipIgnorable inp pos)) = Some (92 # lit ''end'')
      then Ok (cells @ [currentCell]) (skipIgnorable inp pos)
      else andThen (E (skipIgnorable inp pos))
             (\<lambda>e p. case e of
                Some x \<Rightarrow> arrayLineLoop n E inp cells (currentCell @ [x]) p
              | None \<Rightarrow> Ok cells p))"

definition parseArrayLine ::
  "nat \<Rightarrow> (nat \<Rightarrow> Exp option result) \<Rightarrow> jstring \<Rightarrow> nat \<Rightarrow> Exp list list result" where
  "parseArrayLine n E inp pos = arrayLineLoop n E inp [] [] pos"

text \<open>The callback \<open>() => {}\<close> of \<open>readBraces\<close> and \<open>readBrackets\<close>.\<close>

definition nothing :: "nat \<Rightarrow> unit result" where
  "nothing pos = Ok () pos"

text \<open>
  The loop of \<open>parseMatrix\<close>, which \<open>parseAlign\<close> repeats word for word; \<open>L\<close> is
  \<open>parseArrayLine\<close>.  After a line it asks \<open>match('\\\\')\<close> again, at the cursor
  \<open>parseArrayLine\<close> left.
\<close>

fun linesLoop ::
  "nat \<Rightarrow> (nat \<Rightarrow> Exp list list result) \<Rightarrow> jstring \<Rightarrow> Exp list list list \<Rightarrow> nat
     \<Rightarrow> Exp list list list result" where
  "linesLoop 0 L inp rows pos = OutOfFuel"
| "linesLoop (Suc k) L inp rows pos =
     (case readControlSequence inp (skipIgnorable inp pos) of
        (cmd, p) \<Rightarrow>
          (if cmd = Some (92 # lit ''end'')
           then andThen (readBraces inp nothing p) (\<lambda>_ p'. Ok rows p')
           else andThen (L (skipIgnorable inp pos))
                  (\<lambda>line p1.
                     if matches [92, 92] inp p1
                     then andThen (readBrackets inp nothing (skipIgnorable inp (p1 + 2)))
                            (\<lambda>_ p2.
                               linesLoop k L inp (if length line > 0 then rows @ [line] else rows) p2)
                     else Ok (if length line > 0 then rows @ [line] else rows) p1)))"

definition maxLength :: "'a list list \<Rightarrow> nat" where
  "maxLength rows = foldr max (map length rows) 0"

definition parseMatrix ::
  "nat \<Rightarrow> (nat \<Rightarrow> Exp option result) \<Rightarrow> jstring \<Rightarrow> jstring \<Rightarrow> nat \<Rightarrow> Exp option result" where
  "parseMatrix n E envName inp pos =
     andThen (linesLoop n (parseArrayLine n E inp) inp [] pos)
       (\<lambda>rows p.
          (case (if envName = lit ''pmatrix'' then (lit ''('', lit '')'')
                 else if envName = lit ''bmatrix'' then (lit ''['', lit '']'')
                 else if envName = lit ''Bmatrix'' then (lit ''{'', lit ''}'')
                 else if envName = lit ''vmatrix'' then (lit ''|'', lit ''|'')
                 else if envName = lit ''Vmatrix'' then ([0x2225], [0x2225])
                 else ([], [])) of
             (opening, closing) \<Rightarrow>
               (if opening \<noteq> [] \<and> closing \<noteq> []
                then Ok (Some (EDelimited opening closing
                                [Right (EArray (replicate (maxLength rows) AlignCenter) rows)])) p
                else Ok (Some (EArray (replicate (maxLength rows) AlignCenter) rows)) p)))"

definition parseAlign :: "nat \<Rightarrow> (nat \<Rightarrow> Exp option result) \<Rightarrow> jstring \<Rightarrow> nat \<Rightarrow> Exp option result" where
  "parseAlign n E inp pos =
     andThen (linesLoop n (parseArrayLine n E inp) inp [] pos)
       (\<lambda>rows p.
          Ok (Some (EArray (map (\<lambda>i. if i mod 2 = 0 then AlignRight else AlignLeft) [0..<maxLength rows])
                      rows)) p)"

definition parseEnvironment ::
  "nat \<Rightarrow> (nat \<Rightarrow> Exp option result) \<Rightarrow> jstring \<Rightarrow> nat \<Rightarrow> Exp option result" where
  "parseEnvironment n E inp pos =
     andThen (readBraces inp (readUntilBrace inp) pos)
       (\<lambda>r p. case r of
          None \<Rightarrow> Ok None p
        | Some envName \<Rightarrow>
            (if envName = [] then Ok None p
             else if includesStr envName (lit ''matrix'') \<or> envName = lit ''array''
             then parseMatrix n E envName inp p
             else if includesStr envName (lit ''align'') \<or> envName = lit ''eqnarray''
             then parseAlign n E inp p
             else Ok None p))"

definition parseCommand ::
  "nat \<Rightarrow> tables \<Rightarrow> (nat \<Rightarrow> Exp option result) \<Rightarrow> (nat \<Rightarrow> Exp option result) \<Rightarrow> jstring \<Rightarrow> nat
     \<Rightarrow> Exp option result" where
  "parseCommand n T E E1 inp pos =
     (case readControlSequence inp pos of
        (None, p) \<Rightarrow> Ok None p
      | (Some cmd, p0) \<Rightarrow>
          (case symbols T cmd of
             Some symb \<Rightarrow>
               (case symb of
                  ESymbol st v \<Rightarrow>
                    (if st = Accent
                     then andThen (E1 (skipIgnorable inp p0))
                            (\<lambda>arg p. case arg of
                               Some a \<Rightarrow> Ok (Some (EOver False a symb)) p
                             | None \<Rightarrow> Ok (Some symb) p)
                     else if st = TOver
                     then andThen (E1 (skipIgnorable inp p0))
                            (\<lambda>arg p. case arg of
                               Some a \<Rightarrow> Ok (Some (EOver False a symb)) p
                             | None \<Rightarrow> Ok (Some symb) p)
                     else if st = TUnder
                     then andThen (E1 (skipIgnorable inp p0))
                            (\<lambda>arg p. case arg of
                               Some a \<Rightarrow> Ok (Some (EUnder False a symb)) p
                             | None \<Rightarrow> Ok (Some symb) p)
                     else Ok (Some symb) (skipIgnorable inp p0))
                | _ \<Rightarrow> Ok (Some symb) (skipIgnorable inp p0))
           | None \<Rightarrow>
               (if cmd = 92 # lit ''frac'' then parseFrac n E NormalFrac inp (skipIgnorable inp p0)
                else if cmd = 92 # lit ''tfrac'' then parseFrac n E InlineFrac inp (skipIgnorable inp p0)
                else if cmd = 92 # lit ''dfrac'' then parseFrac n E DisplayFrac inp (skipIgnorable inp p0)
                else if cmd = 92 # lit ''sqrt'' then parseSqrt n E E1 inp (skipIgnorable inp p0)
                else if cmd = 92 # lit ''overset'' then parseOverset E1 inp (skipIgnorable inp p0)
                else if cmd = 92 # lit ''underset'' then parseUnderset E1 inp (skipIgnorable inp p0)
                else if cmd = 92 # lit ''stackrel'' then parseStackrel E1 inp (skipIgnorable inp p0)
                else if cmd = 92 # lit ''left'' then parseDelimited n T E inp (skipIgnorable inp p0)
                else if cmd = 92 # lit ''right'' then Ok None (skipIgnorable inp p0)
                else (case textOps T cmd of
                        Some op \<Rightarrow> parseTextOp op inp (skipIgnorable inp p0)
                      | None \<Rightarrow>
                          (case styleOps T cmd of
                             Some op \<Rightarrow> parseStyleOp n E E1 op inp (skipIgnorable inp p0)
                           | None \<Rightarrow>
                               (if cmd = 92 # lit ''operatorname''
                                then parseOperatorName n E1 inp (skipIgnorable inp p0)
                                else if cmd = 92 # lit ''boxed'' then parseBoxed E1 inp (skipIgnorable inp p0)
                                else if cmd = 92 # lit ''phantom'' then parsePhantom E1 inp (skipIgnorable inp p0)
                                else if cmd = 92 # lit ''cancel''
                                then parseCancel E1 ForwardSlash inp (skipIgnorable inp p0)
                                else if cmd = 92 # lit ''bcancel''
                                then parseCancel E1 BackSlash inp (skipIgnorable inp p0)
                                else if cmd = 92 # lit ''xcancel''
                                then parseCancel E1 XSlash inp (skipIgnorable inp p0)
                                else if cmd = 92 # lit ''begin''
                                then parseEnvironment n E inp (skipIgnorable inp p0)
                                else if cmd = 92 # lit ''enspace''
                                then Ok (Some (ESpace (Num (1 / 2)))) (skipIgnorable inp p0)
                                else if cmd = 92 # lit ''hspace'' then parseHSpace inp (skipIgnorable inp p0)
                                else Ok None (skipIgnorable inp p0)))))))"

definition primeSymbol :: "nat \<Rightarrow> jstring" where
  "primeSymbol primeCount =
     (if primeCount = 1 then [0x2032] else if primeCount = 2 then [0x2033]
      else if primeCount = 3 then [0x2034] else [0x2057])"

text \<open>The tail of both superscript branches of \<open>parseSubSup\<close>: an optional subscript.\<close>

definition superThenSub ::
  "(nat \<Rightarrow> Exp option result) \<Rightarrow> Exp \<Rightarrow> Exp \<Rightarrow> jstring \<Rightarrow> nat \<Rightarrow> Exp option result" where
  "superThenSub E1 base sp inp pos =
     (if peek inp (skipIgnorable inp pos) = Some 95
      then andThen (E1 (skipIgnorable inp (skipIgnorable inp pos + 1)))
             (\<lambda>sub p. case sub of
                Some sb \<Rightarrow> Ok (Some (ESubsup base sb sp)) p
              | None \<Rightarrow> Ok (Some (ESuper base sp)) p)
      else Ok (Some (ESuper base sp)) (skipIgnorable inp pos))"

definition parseSubSup ::
  "(nat \<Rightarrow> Exp option result) \<Rightarrow> Exp \<Rightarrow> jstring \<Rightarrow> nat \<Rightarrow> Exp option result" where
  "parseSubSup E1 base inp pos =
     (if peek inp (skipIgnorable inp pos) = Some 95
      then andThen (E1 (skipIgnorable inp (skipIgnorable inp pos + 1)))
             (\<lambda>sub p. case sub of
                None \<Rightarrow> Ok None p
              | Some sb \<Rightarrow>
                  (if peek inp (skipIgnorable inp p) = Some 94
                   then andThen (E1 (skipIgnorable inp (skipIgnorable inp p + 1)))
                          (\<lambda>sup p'. case sup of
                             Some sp \<Rightarrow> Ok (Some (ESubsup base sb sp)) p'
                           | None \<Rightarrow> Ok (Some (ESub base sb)) p')
                   else Ok (Some (ESub base sb)) (skipIgnorable inp p)))
      else if peek inp (skipIgnorable inp pos) = Some 94
      then (if peek inp (skipIgnorable inp (skipIgnorable inp pos + 1)) = Some 39
            then superThenSub E1 base
                   (ESymbol Pun
                      (primeSymbol
                         (skipWhile (\<lambda>c. c = 39) inp (skipIgnorable inp (skipIgnorable inp pos + 1))
                          - skipIgnorable inp (skipIgnorable inp pos + 1))))
                   inp (skipWhile (\<lambda>c. c = 39) inp (skipIgnorable inp (skipIgnorable inp pos + 1)))
            else andThen (E1 (skipIgnorable inp (skipIgnorable inp pos + 1)))
                   (\<lambda>sup p. case sup of
                      None \<Rightarrow> Ok None p
                    | Some sp \<Rightarrow> superThenSub E1 base sp inp p))
      else Ok None (skipIgnorable inp pos))"

definition parseExprBody :: "(nat \<Rightarrow> Exp option result) \<Rightarrow> jstring \<Rightarrow> nat \<Rightarrow> Exp option result" where
  "parseExprBody E1 inp pos =
     andThen (E1 (skipIgnorable inp pos))
       (\<lambda>base p. case base of
          None \<Rightarrow> Ok None p
        | Some b \<Rightarrow>
            andThen (parseSubSup E1 b inp (skipIgnorable inp p))
              (\<lambda>subSupResult p'. case subSupResult of
                 Some r \<Rightarrow> Ok (Some r) p'
               | None \<Rightarrow> Ok (Some b) p'))"

definition parseExpr1Body ::
  "nat \<Rightarrow> tables \<Rightarrow> (nat \<Rightarrow> Exp option result) \<Rightarrow> (nat \<Rightarrow> Exp option result) \<Rightarrow> jstring \<Rightarrow> nat
     \<Rightarrow> Exp option result" where
  "parseExpr1Body n T E E1 inp pos =
     orElse (parseInBraces n E inp (skipIgnorable inp pos))
       (\<lambda>p. orElse (parseNumber inp p)
          (\<lambda>p. orElse (parseVariable inp p)
             (\<lambda>p. orElse (parseCommand n T E E1 inp p)
                (\<lambda>p. orElse (parseOperator T inp p)
                   (\<lambda>p. parseEnclosure T inp p)))))"

fun parseExpr :: "tables \<Rightarrow> jstring \<Rightarrow> nat \<Rightarrow> nat \<Rightarrow> Exp option result"
  and parseExpr1 :: "tables \<Rightarrow> jstring \<Rightarrow> nat \<Rightarrow> nat \<Rightarrow> Exp option result" where
  "parseExpr T inp 0 pos = OutOfFuel"
| "parseExpr T inp (Suc n) pos = parseExprBody (parseExpr1 T inp n) inp pos"
| "parseExpr1 T inp 0 pos = OutOfFuel"
| "parseExpr1 T inp (Suc n) pos =
     parseExpr1Body n T (parseExpr T inp n) (parseExpr1 T inp n) inp pos"

text \<open>The loop of \<open>parse\<close>.\<close>

fun parseLoop :: "nat \<Rightarrow> (nat \<Rightarrow> Exp option result) \<Rightarrow> jstring \<Rightarrow> Exp list \<Rightarrow> nat \<Rightarrow> Exp list result" where
  "parseLoop 0 E inp exps pos = OutOfFuel"
| "parseLoop (Suc k) E inp exps pos =
     (if peek inp pos \<noteq> None
      then andThen (E pos)
             (\<lambda>e p. case e of
                Some x \<Rightarrow> parseLoop k E inp (exps @ [x]) (skipIgnorable inp p)
              | None \<Rightarrow> Ok exps p)
      else Ok exps pos)"

definition parse :: "tables \<Rightarrow> nat \<Rightarrow> jstring \<Rightarrow> Exp list result" where
  "parse T fuel inp =
     andThen (parseLoop fuel (parseExpr T inp fuel) inp [] (skipIgnorable inp 0))
       (\<lambda>exps p. Ok (fixBinList exps) p)"

text \<open>
  \<open>readTeX\<close> starts a parser at cursor 0.  \<open>Some (Inr exps)\<close> is the returned array,
  \<open>Some (Inl e)\<close> the exception that leaves \<open>readTeX\<close>, and \<open>None\<close> says that the fuel did
  not suffice.
\<close>

definition readTeX :: "tables \<Rightarrow> nat \<Rightarrow> jstring \<Rightarrow> (ParseError + Exp list) option" where
  "readTeX T fuel inp =
     (case parse T fuel inp of
        Ok exps _ \<Rightarrow> Some (Inr exps)
      | Throw e \<Rightarrow> Some (Inl e)
      | OutOfFuel \<Rightarrow> None)"

text \<open>
  The entry point (index.ts): parse, then write.  A \<open>ParseError\<close> is caught and thrown again
  as an \<open>Error\<close> whose message is the old one after a fixed prefix; \<open>Inl\<close> carries that
  message.
\<close>

definition latexToOmml :: "tables \<Rightarrow> nat \<Rightarrow> jstring \<Rightarrow> DisplayType \<Rightarrow> (jstring + jstring) option" where
  "latexToOmml T fuel latex displayType =
     (case readTeX T fuel latex of
        Some (Inr ast) \<Rightarrow> Some (Inr (writeOMML displayType ast))
      | Some (Inl (ParseError message _)) \<Rightarrow>
          Some (Inl (lit ''Failed to convert LaTeX to OMML: '' @ message))
      | None \<Rightarrow> None)"


section \<open>Notions used in the statements\<close>

text \<open>
  What the post-pass may do to one element: leave it as it is, or turn a symbol of class
  \<open>Bin\<close> into the symbol of class \<open>Ord\<close> with the same value.
\<close>

definition reclassified :: "Exp \<Rightarrow> Exp \<Rightarrow> bool" where
  "reclassified a b \<longleftrightarrow>
     b = a \<or> (case a of ESymbol st v \<Rightarrow> st = Bin \<and> b = ESymbol Ord v | _ \<Rightarrow> False)"



text \<open>The characters that \<open>escapeXml\<close> does not leave as they are.\<close>

definition escapedChars :: "nat set" where
  "escapedChars = {c. escapeXml [c] \<noteq> [c]}"

text \<open>An element of the markup namespace, as opposed to a bare string.\<close>

definition isElem :: "XMLNode \<Rightarrow> bool" where
  "isElem n = (case n of XElem t _ _ \<Rightarrow> take 2 t = lit ''m:'' | XText _ \<Rightarrow> False)"


text \<open>
  The shape of the errors of \<open>readBraces\<close> and \<open>readBrackets\<close>: one of their two messages,
  with a position at which the next character is not the closing character that the message
  names.  This says where the parser stood when it gave up, and no more: the closing
  character may well be present further on in the input.
\<close>

definition closerExpected :: "jstring \<Rightarrow> ParseError \<Rightarrow> bool" where
  "closerExpected inp e =
     (case e of ParseError message p \<Rightarrow>
        (message = lit ''Expected closing brace'' \<and> peek inp p \<noteq> Some 125)
        \<or> (message = lit ''Expected closing bracket'' \<and> peek inp p \<noteq> Some 93))"

definition throwsOnly :: "jstring \<Rightarrow> 'a result \<Rightarrow> bool" where
  "throwsOnly inp r = (case r of Throw e \<Rightarrow> closerExpected inp e | _ \<Rightarrow> True)"

text \<open>
  What it means that a closing character is missing from an input.  \<open>unclosed opn cls s 0\<close>
  reads \<open>s\<close> from left to right and counts the opening characters \<open>opn\<close> that no later
  closing character \<open>cls\<close> closes; a closing character with nothing to close is passed over.
  No closing character is missing when the count is zero for the braces (codes 123 and 125)
  and for the brackets (codes 91 and 93).
\<close>

fun unclosed :: "nat \<Rightarrow> nat \<Rightarrow> jstring \<Rightarrow> nat \<Rightarrow> nat" where
  "unclosed opn cls [] d = d"
| "unclosed opn cls (c # s) d =
     unclosed opn cls s (if c = opn then d + 1 else if c = cls then d - 1 else d)"

definition noCloserMissing :: "jstring \<Rightarrow> bool" where
  "noCloserMissing inp \<longleftrightarrow> unclosed 123 125 inp 0 = 0 \<and> unclosed 91 93 inp 0 = 0"

text \<open>
  The commands that \<open>parseCommand\<close> handles by name, and what it means for a command to be
  recognized: it is in one of the three tables that \<open>parseCommand\<close> consults, or it is
  handled by name.
\<close>

definition builtinCommands :: "jstring list" where
  "builtinCommands =
     [92 # lit ''frac'', 92 # lit ''tfrac'', 92 # lit ''dfrac'', 92 # lit ''sqrt'',
      92 # lit ''overset'', 92 # lit ''underset'', 92 # lit ''stackrel'', 92 # lit ''left'',
      92 # lit ''right'', 92 # lit ''operatorname'', 92 # lit ''boxed'', 92 # lit ''phantom'',
      92 # lit ''cancel'', 92 # lit ''bcancel'', 92 # lit ''xcancel'', 92 # lit ''begin'',
      92 # lit ''enspace'', 92 # lit ''hspace'']"

definition recognized :: "tables \<Rightarrow> jstring \<Rightarrow> bool" where
  "recognized T cmd \<longleftrightarrow>
     symbols T cmd \<noteq> None \<or> textOps T cmd \<noteq> None \<or> styleOps T cmd \<noteq> None
     \<or> cmd \<in> set builtinCommands"

text \<open>
  Modelled from the spec: the lookup tables of \<open>commands.ts\<close> are missing.  The theorems
  below hold for every table with the entries they name; this table has the entries that the
  scenarios of the specification need (the summation sign as an operator, the equals sign as
  a relation, the plus sign as a binary operator, the parentheses, one style and one text
  command) and serves for the closed instances.
\<close>

definition sampleTables :: tables where
  "sampleTables = \<lparr>
     symbols = [92 # lit ''sum'' \<mapsto> ESymbol Op [0x2211]],
     operators = [lit ''='' \<mapsto> ESymbol Rel (lit ''=''), lit ''+'' \<mapsto> ESymbol Bin (lit ''+'')],
     enclosures = [lit ''('' \<mapsto> ESymbol Open (lit ''(''), lit '')'' \<mapsto> ESymbol Close (lit '')'')],
     styleOps = [92 # lit ''mathbf'' \<mapsto> EStyled TextBold],
     textOps = [92 # lit ''text'' \<mapsto> EText TextNormal] \<rparr>"

text \<open>The inputs of the scenarios.\<close>

definition pmatrixInput :: jstring where
  "pmatrixInput =
     92 # lit ''begin{pmatrix} a & b '' @ [92, 92] @ lit '' c & d '' @ 92 # lit ''end{pmatrix}''"

definition sumLimitsInput :: jstring where
  "sumLimitsInput = 92 # lit ''sum_{i=1}^{n} i''"

definition sumPlainInput :: jstring where
  "sumPlainInput = 92 # lit ''sum i''"

definition fracInput :: jstring where
  "fracInput = 92 # lit ''frac{1}{2''"

definition binomInput :: jstring where
  "binomInput = 92 # lit ''binom{n}{k}''"

definition bracedBinomInput :: jstring where
  "bracedBinomInput = lit ''{'' @ 92 # lit ''binom{n}{k}}''"

definition fracBinomInput :: jstring where
  "fracBinomInput = 92 # lit ''frac{'' @ 92 # lit ''binom{n}{k}}{2}''"

definition sqrtIndexInput :: jstring where
  "sqrtIndexInput = 92 # lit ''sqrt[3''"

definition sqrtSumInput :: jstring where
  "sqrtSumInput = 92 # lit ''sqrt{x+1}''"

definition boxedInput :: jstring where
  "boxedInput = 92 # lit ''boxed{x+1}''"

text \<open>The markup that the writer returns for \<open>\sum i\<close> in inline mode.\<close>

definition sumPlainMarkup :: jstring where
  "sumPlainMarkup =
     lit ''<m:oMath>'' @ [10]
     @ lit ''  <m:r>'' @ [10]
     @ lit ''    <m:rPr>'' @ [10]
     @ lit ''      <m:sty m:val='' @ [34] @ lit ''p'' @ [34] @ lit ''/>'' @ [10]
     @ lit ''    </m:rPr>'' @ [10]
     @ lit ''    <m:t>'' @ [0x2211] @ lit ''</m:t>'' @ [10]
     @ lit ''  </m:r>'' @ [10]
     @ lit ''  <m:r>'' @ [10]
     @ lit ''    <m:t>i</m:t>'' @ [10]
     @ lit ''  </m:r>'' @ [10]
     @ lit ''</m:oMath>''"


section \<open>The post-pass of the parser\<close>

text \<open>
  Claim C3.  The post-pass turns the binary operator of the sequence [relation, binary
  operator] into an ordinary symbol, it turns a binary operator that is alone in the sequence
  into an ordinary symbol, and it leaves the binary operator of the sequence [ordinary, binary
  operator, ordinary] a binary operator.  The values of the symbols are arbitrary.
\<close>

theorem fixBinList_examples:
  "fixBinList [ESymbol Rel r, ESymbol Bin b] = [ESymbol Rel r, ESymbol Ord b]
   \<and> fixBinList [ESymbol Bin b] = [ESymbol Ord b]
   \<and> fixBinList [ESymbol Ord a, ESymbol Bin b, ESymbol Ord c]
       = [ESymbol Ord a, ESymbol Bin b, ESymbol Ord c]"
  by (simp add: fixBinList_def fixBinStep_def)

lemma reclassified_refl: "reclassified a a"
  by (simp add: reclassified_def)

lemma list_all2_last_update:
  assumes "list_all2 R xs ys" and "ys \<noteq> []" and "R (xs ! (length ys - 1)) y"
  shows "list_all2 R xs (ys[length ys - 1 := y])"
  using assms by (auto simp: list_all2_conv_all_nth nth_list_update)

lemma fixBinStep_cases:
  "fixBinStep result e = result @ [e]
   \<or> (\<exists>v. e = ESymbol Bin v \<and> fixBinStep result e = result @ [ESymbol Ord v])
   \<or> (\<exists>pv. result \<noteq> [] \<and> result ! (length result - 1) = ESymbol Bin pv
         \<and> fixBinStep result e = result[length result - 1 := ESymbol Ord pv] @ [e])"
proof (cases e)
  case (ESymbol st v)
  show ?thesis
  proof (cases "result = []")
    case True
    with ESymbol show ?thesis by (simp add: fixBinStep_def)
  next
    case False
    with ESymbol show ?thesis
      by (cases "result ! (length result - 1)") (simp_all add: fixBinStep_def)
  qed
qed (simp_all add: fixBinStep_def)

lemma fixBinStep_frame:
  assumes "list_all2 reclassified xs result"
  shows "list_all2 reclassified (xs @ [e]) (fixBinStep result e)"
proof -
  have app: "list_all2 reclassified (xs @ [e]) (result @ [y])" if "reclassified e y" for y
    using assms that by (simp add: list_all2_appendI)
  have upd: "list_all2 reclassified (xs @ [e]) (result[length result - 1 := ESymbol Ord pv] @ [e])"
    if ne: "result \<noteq> []" and lst: "result ! (length result - 1) = ESymbol Bin pv" for pv
  proof -
    from ne have "length result - 1 < length result" by (cases result) auto
    with assms have "reclassified (xs ! (length result - 1)) (result ! (length result - 1))"
      by (simp add: list_all2_conv_all_nth)
    with lst have "reclassified (xs ! (length result - 1)) (ESymbol Ord pv)"
      by (cases "xs ! (length result - 1)") (auto simp: reclassified_def)
    with assms ne have "list_all2 reclassified xs (result[length result - 1 := ESymbol Ord pv])"
      by (intro list_all2_last_update) auto
    then show ?thesis by (simp add: list_all2_appendI reclassified_refl)
  qed
  from fixBinStep_cases [of result e] show ?thesis
  proof (elim disjE exE conjE)
    assume "fixBinStep result e = result @ [e]"
    then show ?thesis using app [OF reclassified_refl] by simp
  next
    fix v assume "e = ESymbol Bin v" and eq: "fixBinStep result e = result @ [ESymbol Ord v]"
    then have "reclassified e (ESymbol Ord v)" by (simp add: reclassified_def)
    from app [OF this] eq show ?thesis by simp
  next
    fix pv assume "result \<noteq> []" and "result ! (length result - 1) = ESymbol Bin pv"
      and eq: "fixBinStep result e = result[length result - 1 := ESymbol Ord pv] @ [e]"
    from upd [OF this(1,2)] eq show ?thesis by simp
  qed
qed

lemma foldl_fixBinStep_frame:
  "list_all2 reclassified xs result \<Longrightarrow>
     list_all2 reclassified (xs @ exps) (foldl fixBinStep result exps)"
proof (induction exps arbitrary: xs result)
  case Nil
  then show ?case by simp
next
  case (Cons e exps)
  from Cons.IH [OF fixBinStep_frame [OF Cons.prems, of e]] show ?case by simp
qed

text \<open>
  Claim C10.  For every sequence the post-pass returns a sequence of the same length in which
  each element is the element of the input at the same place, except that a symbol of class
  \<open>Bin\<close> may have become the symbol of class \<open>Ord\<close> with the same value.
\<close>

theorem fixBinList_frame:
  "length (fixBinList exps) = length exps \<and> list_all2 reclassified exps (fixBinList exps)"
proof -
  have "list_all2 reclassified ([] @ exps) (foldl fixBinStep [] exps)"
    by (rule foldl_fixBinStep_frame) simp
  then show ?thesis by (auto simp: fixBinList_def dest: list_all2_lengthD)
qed


section \<open>Escaping\<close>

lemma replaceAll_append: "replaceAll c r (a @ b) = replaceAll c r a @ replaceAll c r b"
  by (simp add: replaceAll_def)

lemma replaceAll_Cons: "replaceAll c r (x # s) = (if x = c then r else [x]) @ replaceAll c r s"
  by (simp add: replaceAll_def)

lemma replaceAll_Nil: "replaceAll c r [] = []"
  by (simp add: replaceAll_def)

lemma escapeXml_single:
  "escapeXml [c] =
     (if c = 38 then lit ''&amp;'' else if c = 60 then lit ''&lt;'' else if c = 62 then lit ''&gt;''
      else if c = 34 then lit ''&quot;'' else if c = 39 then lit ''&apos;'' else [c])"
  by (simp add: escapeXml_def replaceAll_def lit_def)

lemma escapeXml_Nil: "escapeXml [] = []"
  by (simp add: escapeXml_def replaceAll_def)

lemma escapeXml_append: "escapeXml (a @ b) = escapeXml a @ escapeXml b"
  by (simp add: escapeXml_def replaceAll_append)

lemma escapeXml_Cons: "escapeXml (c # s) = escapeXml [c] @ escapeXml s"
  using escapeXml_append [of "[c]" s] by simp

lemma escapeXml_concat: "escapeXml s = concat (map (\<lambda>c. escapeXml [c]) s)"
proof (induction s)
  case Nil
  show ?case by (simp add: escapeXml_Nil)
next
  case (Cons c s)
  then show ?case by (simp add: escapeXml_Cons [of c s])
qed


lemma escapedChars_eq: "escapedChars = {38, 60, 62, 34, 39}"
  by (auto simp: escapedChars_def escapeXml_single lit_def)

text \<open>
  Claim C8 says that exactly four characters are escaped and lists five.  The number of
  escaped characters is not four.
\<close>

theorem escapeXml_not_four: "card escapedChars \<noteq> 4"
  by (simp add: escapedChars_eq)

text \<open>
  Claim C8, amended.  Serialization escapes exactly the five characters ampersand, less-than,
  greater-than, double quote and apostrophe, and it escapes a string character by character,
  so no other character is changed.
\<close>

theorem escapeXml_five:
  "escapedChars = {38, 60, 62, 34, 39} \<and> card escapedChars = 5
   \<and> escapeXml s = concat (map (\<lambda>c. escapeXml [c]) s)"
  using escapeXml_concat [of s] by (simp add: escapedChars_eq)


section \<open>Totality of the writer\<close>

lemma isElem_createNode: "isElem (createNode t a c)"
  by (simp add: isElem_def createNode_def lit_def)

lemma isElem_str: "isElem (str p t)"
  by (simp add: str_def isElem_createNode)

lemma isElem_helpers:
  "isElem (makeText tt v)" "isElem (showFraction props ft n d)" "isElem (makeArray props al rows)"
  "isElem (makeNary props limLoc symbol subE supE baseE)" "isElem (makeCancel props st e)"
  by (simp_all add: makeText_def isElem_str isElem_createNode)

lemma list_all_concat_map:
  "(\<And>x. x \<in> set xs \<Longrightarrow> list_all P (f x)) \<Longrightarrow> list_all P (concat (map f xs))"
  by (induction xs) auto

lemma showExp_elems: "list_all isElem (showExp props e)"
proof (induction "weight e" arbitrary: e props rule: less_induct)
  case less
  have IH: "list_all isElem (showExp p x)" if "weight x < weight e" for p x
    using less [OF that] .
  have many: "list_all isElem (concat (map (showExp p) v))"
    if "sum_list (map weight v) < weight e" for p v
  proof (rule list_all_concat_map)
    fix x assume "x \<in> set v"
    from weight_mem_le [OF this] that show "list_all isElem (showExp p x)"
      by (intro IH) simp
  qed
  show ?case
  proof (cases e)
    case (EGrouped v)
    then have "list_all isElem (concat (map (showExp props) v))"
      by (intro many) simp
    with EGrouped show ?thesis
      by (cases "v ! 0") (simp_all add: isElem_str isElem_helpers isElem_createNode)
  next
    case (EUnder c b u)
    then show ?thesis
      by (cases u) (simp_all add: isElem_createNode)
  next
    case (EOver c b ov)
    then show ?thesis
      by (cases ov) (simp_all add: isElem_createNode)
  next
    case (EUnderover c b u ov)
    then have "weight (EOver c (EUnder c b u) ov) < weight e" by simp
    from IH [OF this] EUnderover show ?thesis by simp
  next
    case (EScaled sc v)
    then have "weight v < weight e" by simp
    from IH [OF this] EScaled show ?thesis by simp
  next
    case (EStyled tt v)
    then show ?thesis using many [of v "setProps tt"] by simp
  qed (simp_all add: isElem_str isElem_createNode isElem_helpers)
qed

lemma nodeToString_shape:
  "\<exists>body. nodeToString (XElem (lit ''m:oMath'' @ t) a c) 0 = lit ''<m:oMath'' @ body @ lit ''>''"
proof -
  have "\<exists>body. lit ''<'' @ (lit ''m:oMath'' @ t) @ x @ lit ''/>'' = lit ''<m:oMath'' @ body @ lit ''>''" for x
    by (rule exI [of _ "t @ x @ lit ''/''"]) (simp add: lit_def)
  moreover have "\<exists>body. lit ''<'' @ (lit ''m:oMath'' @ t) @ x @ lit ''>'' @ y @ lit ''</'' @ (lit ''m:oMath'' @ t) @ lit ''>''
      = lit ''<m:oMath'' @ body @ lit ''>''" for x y
    by (rule exI [of _ "t @ x @ lit ''>'' @ y @ lit ''</'' @ (lit ''m:oMath'' @ t)"]) (simp add: lit_def)
  moreover have "\<exists>body. lit ''<'' @ (lit ''m:oMath'' @ t) @ x @ lit ''>'' @ [10] @ y @ [10] @ lit ''</'' @ (lit ''m:oMath'' @ t) @ lit ''>''
      = lit ''<m:oMath'' @ body @ lit ''>''" for x y
    by (rule exI [of _ "t @ x @ lit ''>'' @ [10] @ y @ [10] @ lit ''</'' @ (lit ''m:oMath'' @ t)"]) (simp add: lit_def)
  ultimately show ?thesis by simp
qed

text \<open>
  Claim C4.  The writer has no statement that raises, and its model \<open>showExp\<close> is a total
  function: its recursion, which in the \<open>EUnderover\<close> case continues on a tree it has just
  built, terminates on every tree.  So for every sequence of trees and both display modes
  \<open>writeOMML\<close> returns: the nodes it emits are elements, and the string it returns is the
  serialization of the root element, \<open>m:oMath\<close> or \<open>m:oMathPara\<close>.
\<close>

theorem writeOMML_total:
  "list_all isElem (concat (map (showExp []) (handleDownup dt exps)))
   \<and> (\<exists>body. writeOMML dt exps = lit ''<m:oMath'' @ body @ lit ''>'')"
proof
  show "list_all isElem (concat (map (showExp []) (handleDownup dt exps)))"
    by (rule list_all_concat_map) (rule showExp_elems)
next
  have "rootNode dt nodes = XElem (lit ''m:oMath'' @ (if dt = DisplayBlock then lit ''Para'' else [])) []
      (if dt = DisplayBlock
       then [createNode (lit ''oMathParaPr'') [] [createNodeWithVal (lit ''jc'') (lit ''center'') []],
              createNode (lit ''oMath'') [] nodes] else nodes)" for nodes
    by (simp add: rootNode_def createNode_def lit_def)
  then show "\<exists>body. writeOMML dt exps = lit ''<m:oMath'' @ body @ lit ''>''"
    unfolding writeOMML_def using nodeToString_shape by simp
qed


section \<open>Escaped text in the markup\<close>















section \<open>Rewriting rules for the parser\<close>

text \<open>
  The sequencing operators evaluate their first argument before the continuation is looked
  at, and a function defined by recursion on the fuel unfolds as soon as the fuel is known to
  be positive.
\<close>

lemma andThen_simps:
  "andThen (Ok a p) f = f a p" "andThen (Throw e) f = Throw e" "andThen OutOfFuel f = OutOfFuel"
  by (simp_all add: andThen_def)

lemma andThen_weak_cong: "m = m' \<Longrightarrow> andThen m f = andThen m' f"
  by simp

lemma orElse_simps:
  "orElse (Ok (Some x) p) f = Ok (Some x) p" "orElse (Ok None p) f = f p"
  "orElse (Throw e) f = Throw e" "orElse OutOfFuel f = OutOfFuel"
  by (simp_all add: orElse_def andThen_simps)

lemma orElse_weak_cong: "m = m' \<Longrightarrow> orElse m f = orElse m' f"
  by simp

lemma fuel_pos: "0 < n \<Longrightarrow> n = Suc (n - 1)"
  by simp

lemma parseExpr_unfold:
  "0 < n \<Longrightarrow> parseExpr T inp n pos = parseExprBody (parseExpr1 T inp (n - 1)) inp pos"
  by (subst fuel_pos [of n], assumption) (rule parseExpr.simps)

lemma parseExpr1_unfold:
  "0 < n \<Longrightarrow> parseExpr1 T inp n pos =
     parseExpr1Body (n - 1) T (parseExpr T inp (n - 1)) (parseExpr1 T inp (n - 1)) inp pos"
  by (subst fuel_pos [of n], assumption) (rule parseExpr1.simps)

lemma parseLoop_unfold:
  "0 < n \<Longrightarrow> parseLoop n E inp exps pos =
     (if peek inp pos \<noteq> None
      then andThen (E pos)
             (\<lambda>e p. case e of
                Some x \<Rightarrow> parseLoop (n - 1) E inp (exps @ [x]) (skipIgnorable inp p)
              | None \<Rightarrow> Ok exps p)
      else Ok exps pos)"
  by (subst fuel_pos [of n], assumption) (rule parseLoop.simps)

lemma bracesLoop_unfold:
  "0 < n \<Longrightarrow> bracesLoop n P inp exps pos =
     (if peek inp pos \<noteq> Some 125 \<and> peek inp pos \<noteq> None
      then andThen (P pos)
             (\<lambda>e p. case e of Some x \<Rightarrow> bracesLoop (n - 1) P inp (exps @ [x]) p | None \<Rightarrow> Ok exps p)
      else Ok exps pos)"
  by (subst fuel_pos [of n], assumption) (rule bracesLoop.simps)

lemma groupedLoop_unfold:
  "0 < n \<Longrightarrow> groupedLoop n E inp exps pos =
     (if peek inp pos \<noteq> Some 125 \<and> peek inp pos \<noteq> Some 93 \<and> peek inp pos \<noteq> None
      then andThen (E pos)
             (\<lambda>e p. case e of
                Some x \<Rightarrow> groupedLoop (n - 1) E inp (exps @ [x]) p
              | None \<Rightarrow>
                  (case peek inp p of
                     Some char \<Rightarrow>
                       (if char \<noteq> 125 \<and> char \<noteq> 93 then groupedLoop (n - 1) E inp exps (p + 1)
                        else Ok exps p)
                   | None \<Rightarrow> Ok exps p))
      else Ok exps pos)"
  by (subst fuel_pos [of n], assumption) (rule groupedLoop.simps)

lemma arrayLineLoop_unfold:
  "0 < n \<Longrightarrow> arrayLineLoop n E inp cells currentCell pos =
     (if peek inp (skipIgnorable inp pos) = Some 38
      then arrayLineLoop (n - 1) E inp (cells @ [currentCell]) [] (skipIgnorable inp pos + 1)
      else if matches [92, 92] inp (skipIgnorable inp pos)
      then Ok (cells @ [currentCell]) (skipIgnorable inp pos + 2)
      else if peek inp (skipIgnorable inp pos) = None
      then Ok (cells @ [currentCell]) (skipIgnorable inp pos)
      else if fst (readControlSequence inp (skipIgnorable inp pos)) = Some (92 # lit ''end'')
      then Ok (cells @ [currentCell]) (skipIgnorable inp pos)
      else andThen (E (skipIgnorable inp pos))
             (\<lambda>e p. case e of
                Some x \<Rightarrow> arrayLineLoop (n - 1) E inp cells (currentCell @ [x]) p
              | None \<Rightarrow> Ok cells p))"
  by (subst fuel_pos [of n], assumption) (rule arrayLineLoop.simps)

lemma linesLoop_unfold:
  "0 < n \<Longrightarrow> linesLoop n L inp rows pos =
     (case readControlSequence inp (skipIgnorable inp pos) of
        (cmd, p) \<Rightarrow>
          (if cmd = Some (92 # lit ''end'')
           then andThen (readBraces inp nothing p) (\<lambda>_ p'. Ok rows p')
           else andThen (L (skipIgnorable inp pos))
                  (\<lambda>line p1.
                     if matches [92, 92] inp p1
                     then andThen (readBrackets inp nothing (skipIgnorable inp (p1 + 2)))
                            (\<lambda>_ p2.
                               linesLoop (n - 1) L inp (if length line > 0 then rows @ [line] else rows) p2)
                     else Ok (if length line > 0 then rows @ [line] else rows) p1)))"
  by (subst fuel_pos [of n], assumption) (rule linesLoop.simps)

lemma delimitedLoop_unfold:
  "0 < n \<Longrightarrow> delimitedLoop n T E inp content pos =
     (case readControlSequence inp (skipIgnorable inp pos) of
        (cmd, p) \<Rightarrow>
          (if cmd = Some (92 # lit ''right'') then Ok content p
           else if cmd = Some (92 # lit ''middle'')
           then andThen (parseDelimiter T inp (skipIgnorable inp pos))
                  (\<lambda>delim p'. case delim of
                     Some d \<Rightarrow>
                       (if d \<noteq> [] then delimitedLoop (n - 1) T E inp (content @ [Left d]) p'
                        else delimitedLoop (n - 1) T E inp content p')
                   | None \<Rightarrow> delimitedLoop (n - 1) T E inp content p')
           else andThen (E (skipIgnorable inp pos))
                  (\<lambda>e p'. case e of
                     Some x \<Rightarrow> delimitedLoop (n - 1) T E inp (content @ [Right x]) p'
                   | None \<Rightarrow> Ok content p')))"
  by (subst fuel_pos [of n], assumption) (rule delimitedLoop.simps)

lemmas fuel_unfold = parseExpr_unfold parseExpr1_unfold parseLoop_unfold bracesLoop_unfold
  groupedLoop_unfold arrayLineLoop_unfold linesLoop_unfold delimitedLoop_unfold

lemmas parser_defs = readTeX_def parse_def parseExprBody_def parseExpr1Body_def parseInBraces_def
  readBraces_def readBrackets_def parseNumber_def numberEnd_def parseVariable_def parseCommand_def
  parseOperator_def parseEnclosure_def parseEnvironment_def parseMatrix_def parseArrayLine_def
  parseSubSup_def superThenSub_def readUntilBrace_def readControlSequence_def
  peek_def skipWhitespace_def skipWhile.simps skipIgnorable.simps matches_def substring_def
  lit_def isLetter_def isDigit_def isSpaceChar_def maxLength_def nothing_def
  parseFrac_def parseGroupedExpr_def fixBinList_def fixBinStep_def andThen_simps orElse_simps

lemmas parser_congs = andThen_weak_cong orElse_weak_cong prod.case_cong_weak


section \<open>What the parser can raise\<close>

text \<open>
  Every error that leaves a parsing function was raised by \<open>readBraces\<close> or \<open>readBrackets\<close>
  at a cursor where the closing character is not the next one.  The property passes through
  the sequencing operators, every loop, and the knot of \<open>parseExpr\<close> and \<open>parseExpr1\<close>.
\<close>

lemma throwsOnly_Ok [simp]: "throwsOnly inp (Ok a p)"
  and throwsOnly_OutOfFuel [simp]: "throwsOnly inp OutOfFuel"
  by (simp_all add: throwsOnly_def)

lemma throwsOnly_Throw: "throwsOnly inp (Throw e) = closerExpected inp e"
  by (simp add: throwsOnly_def)

lemma throwsOnly_andThen:
  "throwsOnly inp m \<Longrightarrow> (\<And>a p. throwsOnly inp (f a p)) \<Longrightarrow> throwsOnly inp (andThen m f)"
  by (cases m) (simp_all add: andThen_def throwsOnly_def)

lemma throwsOnly_orElse:
  "throwsOnly inp m \<Longrightarrow> (\<And>p. throwsOnly inp (f p)) \<Longrightarrow> throwsOnly inp (orElse m f)"
  unfolding orElse_def by (rule throwsOnly_andThen) (auto split: option.split)

lemma throwsOnly_readBraces:
  "(\<And>p. throwsOnly inp (parser p)) \<Longrightarrow> throwsOnly inp (readBraces inp parser pos)"
  unfolding readBraces_def
  by (auto intro!: throwsOnly_andThen simp: throwsOnly_Throw closerExpected_def)

lemma throwsOnly_readBrackets:
  "(\<And>p. throwsOnly inp (parser p)) \<Longrightarrow> throwsOnly inp (readBrackets inp parser pos)"
  unfolding readBrackets_def
  by (auto intro!: throwsOnly_andThen simp: throwsOnly_Throw closerExpected_def)

lemmas throwsOnly_intros = throwsOnly_andThen throwsOnly_orElse throwsOnly_readBraces
  throwsOnly_readBrackets

lemma throwsOnly_simple:
  "throwsOnly inp (parseNumber inp pos)" "throwsOnly inp (parseVariable inp pos)"
  "throwsOnly inp (parseOperator T inp pos)" "throwsOnly inp (parseEnclosure T inp pos)"
  "throwsOnly inp (delimiterChar inp pos)"
  "throwsOnly inp (readUntilBrace inp pos)" "throwsOnly inp (nothing pos)"
  by (simp_all add: parseNumber_def numberEnd_def parseVariable_def parseOperator_def
        parseEnclosure_def delimiterChar_def readUntilBrace_def nothing_def Let_def
      split: option.split)

lemma throwsOnly_parseDelimiter: "throwsOnly inp (parseDelimiter T inp pos)"
  by (simp add: parseDelimiter_def throwsOnly_simple split: option.split prod.split Exp.split)

lemma throwsOnly_text:
  "throwsOnly inp (parseTextOp op inp pos)" "throwsOnly inp (parseHSpace inp pos)"
  unfolding parseTextOp_def parseHSpace_def
  by (auto intro!: throwsOnly_intros throwsOnly_simple split: option.split)

lemma throwsOnly_bracesLoop:
  assumes "\<And>p. throwsOnly inp (P p)"
  shows "throwsOnly inp (bracesLoop n P inp exps pos)"
proof (induction n arbitrary: exps pos)
  case 0
  show ?case by simp
next
  case (Suc n)
  show ?case
    by (auto intro!: throwsOnly_andThen assms Suc split: option.split)
qed

lemma throwsOnly_groupedLoop:
  assumes "\<And>p. throwsOnly inp (E p)"
  shows "throwsOnly inp (groupedLoop n E inp exps pos)"
proof (induction n arbitrary: exps pos)
  case 0
  show ?case by simp
next
  case (Suc n)
  show ?case
    by (auto intro!: throwsOnly_andThen assms Suc split: option.split)
qed

lemma throwsOnly_parseInBraces:
  assumes "\<And>p. throwsOnly inp (E p)"
  shows "throwsOnly inp (parseInBraces n E inp pos)"
  unfolding parseInBraces_def
  by (auto intro!: throwsOnly_intros throwsOnly_bracesLoop assms split: option.split)

lemma throwsOnly_parseGroupedExpr:
  assumes "\<And>p. throwsOnly inp (E p)"
  shows "throwsOnly inp (parseGroupedExpr n E inp pos)"
  unfolding parseGroupedExpr_def
  by (auto intro!: throwsOnly_intros throwsOnly_groupedLoop assms)

lemma throwsOnly_parseFrac:
  assumes "\<And>p. throwsOnly inp (E p)"
  shows "throwsOnly inp (parseFrac n E ft inp pos)"
  unfolding parseFrac_def
  by (auto intro!: throwsOnly_intros throwsOnly_parseGroupedExpr assms split: option.split)

lemma throwsOnly_parseSqrt:
  assumes "\<And>p. throwsOnly inp (E p)" and "\<And>p. throwsOnly inp (E1 p)"
  shows "throwsOnly inp (parseSqrt n E E1 inp pos)"
  unfolding parseSqrt_def
  by (auto intro!: throwsOnly_intros throwsOnly_parseGroupedExpr assms split: option.split)

lemma throwsOnly_bracedExpr1:
  assumes "\<And>p. throwsOnly inp (E1 p)"
  shows "throwsOnly inp (bracedExpr1 E1 inp pos)"
  unfolding bracedExpr1_def
  by (auto intro!: throwsOnly_intros assms)

lemma throwsOnly_braced_users:
  assumes "\<And>p. throwsOnly inp (E1 p)"
  shows "throwsOnly inp (parseOverset E1 inp pos)" "throwsOnly inp (parseUnderset E1 inp pos)"
    "throwsOnly inp (parseStackrel E1 inp pos)" "throwsOnly inp (parseBoxed E1 inp pos)"
    "throwsOnly inp (parsePhantom E1 inp pos)" "throwsOnly inp (parseCancel E1 st inp pos)"
  unfolding parseOverset_def parseUnderset_def parseStackrel_def parseBoxed_def parsePhantom_def
    parseCancel_def
  by (auto intro!: throwsOnly_intros throwsOnly_bracedExpr1 assms split: option.split)

lemma throwsOnly_parseStyleOp:
  assumes "\<And>p. throwsOnly inp (E p)" and "\<And>p. throwsOnly inp (E1 p)"
  shows "throwsOnly inp (parseStyleOp n E E1 op inp pos)"
  unfolding parseStyleOp_def styleContent_def
  by (auto intro!: throwsOnly_intros throwsOnly_bracesLoop assms split: option.split)

lemma throwsOnly_parseOperatorName:
  assumes "\<And>p. throwsOnly inp (E1 p)"
  shows "throwsOnly inp (parseOperatorName n E1 inp pos)"
  unfolding parseOperatorName_def
  by (auto intro!: throwsOnly_intros throwsOnly_bracesLoop assms split: option.split)

lemma throwsOnly_delimitedLoop:
  assumes "\<And>p. throwsOnly inp (E p)"
  shows "throwsOnly inp (delimitedLoop n T E inp content pos)"
proof (induction n arbitrary: content pos)
  case 0
  show ?case by simp
next
  case (Suc n)
  show ?case
    by (auto intro!: throwsOnly_andThen throwsOnly_parseDelimiter assms Suc
        split: option.split prod.split)
qed

lemma throwsOnly_parseDelimited:
  assumes "\<And>p. throwsOnly inp (E p)"
  shows "throwsOnly inp (parseDelimited n T E inp pos)"
  unfolding parseDelimited_def
  by (auto intro!: throwsOnly_andThen throwsOnly_parseDelimiter throwsOnly_delimitedLoop assms
      split: option.split)

lemma throwsOnly_arrayLineLoop:
  assumes "\<And>p. throwsOnly inp (E p)"
  shows "throwsOnly inp (arrayLineLoop n E inp cells currentCell pos)"
proof (induction n arbitrary: cells currentCell pos)
  case 0
  show ?case by simp
next
  case (Suc n)
  show ?case
    by (auto intro!: throwsOnly_andThen assms Suc split: option.split)
qed

lemma throwsOnly_linesLoop:
  assumes "\<And>p. throwsOnly inp (L p)"
  shows "throwsOnly inp (linesLoop n L inp rows pos)"
proof (induction n arbitrary: rows pos)
  case 0
  show ?case by simp
next
  case (Suc n)
  show ?case
    by (auto intro!: throwsOnly_intros throwsOnly_simple assms Suc split: prod.split)
qed

lemma throwsOnly_parseMatrix:
  assumes "\<And>p. throwsOnly inp (E p)"
  shows "throwsOnly inp (parseMatrix n E envName inp pos)"
  unfolding parseMatrix_def parseArrayLine_def
proof (rule throwsOnly_andThen)
  show "throwsOnly inp (linesLoop n (arrayLineLoop n E inp [] []) inp [] pos)"
    by (intro throwsOnly_linesLoop throwsOnly_arrayLineLoop assms)
qed (simp split: prod.split)

lemma throwsOnly_parseAlign:
  assumes "\<And>p. throwsOnly inp (E p)"
  shows "throwsOnly inp (parseAlign n E inp pos)"
  unfolding parseAlign_def parseArrayLine_def
proof (rule throwsOnly_andThen)
  show "throwsOnly inp (linesLoop n (arrayLineLoop n E inp [] []) inp [] pos)"
    by (intro throwsOnly_linesLoop throwsOnly_arrayLineLoop assms)
qed simp

lemma throwsOnly_parseEnvironment:
  assumes "\<And>p. throwsOnly inp (E p)"
  shows "throwsOnly inp (parseEnvironment n E inp pos)"
  unfolding parseEnvironment_def
proof (rule throwsOnly_andThen)
  show "throwsOnly inp (readBraces inp (readUntilBrace inp) pos)"
    by (intro throwsOnly_readBraces throwsOnly_simple)
next
  fix r p
  show "throwsOnly inp
          (case r of
             None \<Rightarrow> Ok None p
           | Some envName \<Rightarrow>
               if envName = [] then Ok None p
               else if includesStr envName (lit ''matrix'') \<or> envName = lit ''array''
               then parseMatrix n E envName inp p
               else if includesStr envName (lit ''align'') \<or> envName = lit ''eqnarray''
               then parseAlign n E inp p
               else Ok None p)"
    using throwsOnly_parseMatrix [of inp E, OF assms] throwsOnly_parseAlign [of inp E, OF assms]
    by (cases r) simp_all
qed

lemma throwsOnly_superThenSub:
  assumes "\<And>p. throwsOnly inp (E1 p)"
  shows "throwsOnly inp (superThenSub E1 base sp inp pos)"
  unfolding superThenSub_def
  by (auto intro!: throwsOnly_andThen assms split: option.split)

lemma throwsOnly_parseSubSup:
  assumes "\<And>p. throwsOnly inp (E1 p)"
  shows "throwsOnly inp (parseSubSup E1 base inp pos)"
  unfolding parseSubSup_def
  by (auto intro!: throwsOnly_andThen throwsOnly_superThenSub assms split: option.split)

lemma throwsOnly_parseExprBody:
  assumes "\<And>p. throwsOnly inp (E1 p)"
  shows "throwsOnly inp (parseExprBody E1 inp pos)"
  unfolding parseExprBody_def
  by (auto intro!: throwsOnly_andThen throwsOnly_parseSubSup assms split: option.split)

lemma throwsOnly_if:
  "throwsOnly inp a \<Longrightarrow> throwsOnly inp b \<Longrightarrow> throwsOnly inp (if c then a else b)"
  by simp

lemma throwsOnly_case_option:
  "throwsOnly inp a \<Longrightarrow> (\<And>x. throwsOnly inp (f x)) \<Longrightarrow>
     throwsOnly inp (case v of None \<Rightarrow> a | Some x \<Rightarrow> f x)"
  by (cases v) simp_all

lemma throwsOnly_parseCommand:
  assumes E: "\<And>p. throwsOnly inp (E p)" and E1: "\<And>p. throwsOnly inp (E1 p)"
  shows "throwsOnly inp (parseCommand n T E E1 inp pos)"
proof -
  obtain c p0 where rc: "readControlSequence inp pos = (c, p0)"
    by (cases "readControlSequence inp pos")
  show ?thesis
  proof (cases c)
    case None
    with rc show ?thesis by (simp only: parseCommand_def prod.case option.case throwsOnly_Ok)
  next
    case (Some cmd)
    show ?thesis
    proof (cases "symbols T cmd")
      case found: (Some symb)
      show ?thesis
        by (cases symb; simp only: parseCommand_def rc Some found prod.case option.case Exp.case)
          (intro throwsOnly_if throwsOnly_andThen throwsOnly_case_option throwsOnly_Ok E1)+
    next
      case None
      show ?thesis
        by (simp only: parseCommand_def rc Some None prod.case option.case)
          (intro throwsOnly_if throwsOnly_case_option throwsOnly_parseFrac throwsOnly_parseSqrt
            throwsOnly_braced_users throwsOnly_parseDelimited throwsOnly_text
            throwsOnly_parseStyleOp throwsOnly_parseOperatorName throwsOnly_parseEnvironment
            throwsOnly_Ok E E1)
    qed
  qed
qed

lemma throwsOnly_parseExpr1Body:
  assumes E: "\<And>p. throwsOnly inp (E p)" and E1: "\<And>p. throwsOnly inp (E1 p)"
  shows "throwsOnly inp (parseExpr1Body n T E E1 inp pos)"
  unfolding parseExpr1Body_def
  by (intro throwsOnly_orElse throwsOnly_parseInBraces throwsOnly_simple
        throwsOnly_parseCommand E E1)

lemma throwsOnly_parseExpr:
  "throwsOnly inp (parseExpr T inp n pos) \<and> throwsOnly inp (parseExpr1 T inp n pos)"
proof (induction n arbitrary: pos)
  case 0
  show ?case by simp
next
  case (Suc n)
  show ?case
    by (simp add: throwsOnly_parseExprBody throwsOnly_parseExpr1Body Suc)
qed

lemma throwsOnly_parseLoop:
  assumes "\<And>p. throwsOnly inp (E p)"
  shows "throwsOnly inp (parseLoop k E inp exps pos)"
proof (induction k arbitrary: exps pos)
  case 0
  show ?case by simp
next
  case (Suc k)
  show ?case
    by (auto intro!: throwsOnly_andThen assms Suc split: option.split)
qed

lemma throwsOnly_parse: "throwsOnly inp (parse T fuel inp)"
  unfolding parse_def
  by (intro throwsOnly_andThen throwsOnly_parseLoop) (simp_all add: throwsOnly_parseExpr)

lemma readTeX_raises_only:
  "readTeX T fuel inp = Some (Inl e) \<Longrightarrow> closerExpected inp e"
  using throwsOnly_parse [of inp T fuel]
  by (auto simp: readTeX_def throwsOnly_def split: result.splits)


section \<open>The scenarios, evaluated\<close>

text \<open>
  Each scenario is evaluated by rewriting, for any table with the named entries and for any
  fuel from ten units on.
\<close>

lemmas eval_defs = pmatrixInput_def sumLimitsInput_def sumPlainInput_def fracInput_def
  binomInput_def bracedBinomInput_def parser_defs fuel_unfold Let_def

lemma pmatrix_eval:
  assumes "symbols T (92 # lit ''begin'') = None" and "textOps T (92 # lit ''begin'') = None"
    and "styleOps T (92 # lit ''begin'') = None" and "operators T (lit ''&'') = None"
  shows "readTeX T (10 + k) pmatrixInput
         = Some (Inr [EDelimited (lit ''('') (lit '')'')
                        [Right (EArray [AlignCenter, AlignCenter]
                                  [[[EIdentifier (lit ''a'')], [EIdentifier (lit ''b'')]]])],
                      EIdentifier (lit ''c'')])"
  using assms by (simp add: eval_defs split del: if_split cong: parser_congs)

lemma pmatrix_first_expr:
  assumes "symbols T (92 # lit ''begin'') = None" and "textOps T (92 # lit ''begin'') = None"
    and "styleOps T (92 # lit ''begin'') = None"
  shows "parseExpr T pmatrixInput (10 + k) 0
         = Ok (Some (EDelimited (lit ''('') (lit '')'')
                       [Right (EArray [AlignCenter, AlignCenter]
                                 [[[EIdentifier (lit ''a'')], [EIdentifier (lit ''b'')]]])])) 25"
  using assms by (simp add: eval_defs split del: if_split cong: parser_congs)

lemma frac_eval:
  assumes "symbols T (92 # lit ''frac'') = None"
  shows "readTeX T (10 + k) fracInput
         = Some (Inl (ParseError (lit ''Expected closing brace'') 10))"
  using assms by (simp add: eval_defs split del: if_split cong: parser_congs)

lemma binom_eval:
  assumes "symbols T (92 # lit ''binom'') = None" and "textOps T (92 # lit ''binom'') = None"
    and "styleOps T (92 # lit ''binom'') = None" and "operators T (lit ''{'') = None"
  shows "readTeX T (10 + k) binomInput = Some (Inr [])"
  using assms by (simp add: eval_defs split del: if_split cong: parser_congs)

lemma braced_binom_eval:
  assumes "symbols T (92 # lit ''binom'') = None" and "textOps T (92 # lit ''binom'') = None"
    and "styleOps T (92 # lit ''binom'') = None" and "operators T (lit ''{'') = None"
  shows "readTeX T (10 + k) bracedBinomInput
         = Some (Inl (ParseError (lit ''Expected closing brace'') 7))"
  using assms by (simp add: eval_defs split del: if_split cong: parser_congs)

lemma frac_binom_eval:
  assumes "symbols T (92 # lit ''binom'') = None" and "textOps T (92 # lit ''binom'') = None"
    and "styleOps T (92 # lit ''binom'') = None" and "operators T (lit ''{'') = None"
    and "symbols T (92 # lit ''frac'') = None" and "operators T (lit ''}'') = None"
    and "enclosures T (lit ''}'') = None"
  shows "readTeX T (10 + k) fracBinomInput
         = Some (Inr [EFraction NormalFrac (EIdentifier (lit ''n'')) (EIdentifier (lit ''k''))])"
  using assms
  by (simp add: fracBinomInput_def eval_defs split del: if_split cong: parser_congs)

lemma sqrt_index_eval:
  assumes "symbols T (92 # lit ''sqrt'') = None"
  shows "readTeX T (10 + k) sqrtIndexInput
         = Some (Inl (ParseError (lit ''Expected closing bracket'') 7))"
  using assms
  by (simp add: sqrtIndexInput_def parseSqrt_def eval_defs split del: if_split cong: parser_congs)

lemma sqrt_sum_eval:
  assumes "symbols T (92 # lit ''sqrt'') = None"
    and "operators T (lit ''+'') = Some (ESymbol st (lit ''+''))"
  shows "readTeX T (10 + k) sqrtSumInput
         = Some (Inr [ESqrt (EGrouped [EIdentifier (lit ''x''), ESymbol st (lit ''+''),
                                       ENumber (lit ''1'')])])"
  using assms
  by (simp add: sqrtSumInput_def parseSqrt_def eval_defs split del: if_split cong: parser_congs)

lemma boxed_eval:
  assumes "symbols T (92 # lit ''boxed'') = None" and "textOps T (92 # lit ''boxed'') = None"
    and "styleOps T (92 # lit ''boxed'') = None"
  shows "readTeX T (10 + k) boxedInput
         = Some (Inl (ParseError (lit ''Expected closing brace'') 8))"
  using assms
  by (simp add: boxedInput_def parseBoxed_def bracedExpr1_def eval_defs
           split del: if_split cong: parser_congs)

lemma sum_limits_eval:
  assumes "symbols T (92 # lit ''sum'') = Some (ESymbol Op [0x2211])"
    and "operators T (lit ''='') = Some (ESymbol st (lit ''=''))"
  shows "readTeX T (10 + k) sumLimitsInput
         = Some (Inr [ESubsup (ESymbol Op [0x2211])
                        (EGrouped [EIdentifier (lit ''i''), ESymbol st (lit ''=''), ENumber (lit ''1'')])
                        (EIdentifier (lit ''n'')),
                      EIdentifier (lit ''i'')])"
  using assms by (simp add: eval_defs split del: if_split cong: parser_congs)

lemma sum_plain_eval:
  assumes "symbols T (92 # lit ''sum'') = Some (ESymbol Op [0x2211])"
  shows "readTeX T (10 + k) sumPlainInput
         = Some (Inr [ESymbol Op [0x2211], EIdentifier (lit ''i'')])"
  using assms by (simp add: eval_defs split del: if_split cong: parser_congs)


lemma sampleTables_lookups:
  "symbols sampleTables (92 # lit ''begin'') = None" "textOps sampleTables (92 # lit ''begin'') = None"
  "styleOps sampleTables (92 # lit ''begin'') = None" "operators sampleTables (lit ''&'') = None"
  "symbols sampleTables (92 # lit ''frac'') = None"
  "symbols sampleTables (92 # lit ''binom'') = None" "textOps sampleTables (92 # lit ''binom'') = None"
  "styleOps sampleTables (92 # lit ''binom'') = None" "operators sampleTables (lit ''{'') = None"
  "symbols sampleTables (92 # lit ''sum'') = Some (ESymbol Op [0x2211])"
  "operators sampleTables (lit ''='') = Some (ESymbol Rel (lit ''=''))"
  "symbols sampleTables (92 # lit ''sqrt'') = None"
  "symbols sampleTables (92 # lit ''boxed'') = None" "textOps sampleTables (92 # lit ''boxed'') = None"
  "styleOps sampleTables (92 # lit ''boxed'') = None"
  "operators sampleTables (lit ''+'') = Some (ESymbol Bin (lit ''+''))"
  "operators sampleTables (lit ''}'') = None" "enclosures sampleTables (lit ''}'') = None"
  by (simp_all add: sampleTables_def lit_def)

text \<open>The markup of the two summation scenarios.\<close>

lemma sum_limits_nodes:
  "concat (map (showExp [])
     (handleDownup dt
        [ESubsup (ESymbol Op [0x2211])
           (EGrouped [EIdentifier (lit ''i''), ESymbol st (lit ''=''), ENumber (lit ''1'')])
           (EIdentifier (lit ''n'')),
         EIdentifier (lit ''i'')]))
   = [createNode (lit ''nary'') []
        [createNode (lit ''naryPr'') []
           [createNodeWithVal (lit ''chr'') [0x2211] [],
            createNodeWithVal (lit ''limLoc'') (lit ''subSup'') [],
            createNodeWithVal (lit ''subHide'') (lit ''off'') [],
            createNodeWithVal (lit ''supHide'') (lit ''off'') []],
         createNode (lit ''sub'') []
           [str [] (lit ''i''), str [sty (lit ''p'')] (lit ''=''), str [] (lit ''1'')],
         createNode (lit ''sup'') [] [str [] (lit ''n'')],
         createNode (lit ''e'') [] [str [] (lit ''i'')]]]"
  by (simp add: isNary_def narySymbols_def nextOf_def symValue_def onOff_def isEmptyGroup_def
        defaultTo_def isWordChar_def isLetter_def isDigit_def isSpaceChar_def isUppercaseGreek_def
        lit_def)

lemma sum_plain_nodes:
  "concat (map (showExp []) (handleDownup dt [ESymbol Op [0x2211], EIdentifier (lit ''i'')]))
   = [str [sty (lit ''p'')] [0x2211], str [] (lit ''i'')]"
  by (simp add: defaultTo_def isWordChar_def isLetter_def isDigit_def isSpaceChar_def
        isUppercaseGreek_def lit_def)

lemma sum_plain_string:
  "nodeToString (rootNode DisplayInline [str [sty (lit ''p'')] [0x2211], str [] (lit ''i'')]) 0
   = lit ''<m:oMath>'' @ [10]
     @ lit ''  <m:r>'' @ [10]
     @ lit ''    <m:rPr>'' @ [10]
     @ lit ''      <m:sty m:val='' @ [34] @ lit ''p'' @ [34] @ lit ''/>'' @ [10]
     @ lit ''    </m:rPr>'' @ [10]
     @ lit ''    <m:t>'' @ [0x2211] @ lit ''</m:t>'' @ [10]
     @ lit ''  </m:r>'' @ [10]
     @ lit ''  <m:r>'' @ [10]
     @ lit ''    <m:t>i</m:t>'' @ [10]
     @ lit ''  </m:r>'' @ [10]
     @ lit ''</m:oMath>''"
  by (simp add: rootNode_def str_def sty_def createNode_def createNodeWithVal_def attrsToString_def
        escapeXml_def replaceAll_def join_def isText_def textOf_def lit_def)


section \<open>The matrix scenario\<close>

text \<open>
  Claim C1 says that \<open>\begin{pmatrix} a & b \\ c & d \end{pmatrix}\<close> parses to a delimited
  region around an array of two rows.  The code returns an array of one row: \<open>parseArrayLine\<close>
  consumes the row separator, so the second \<open>match\<close> of \<open>parseMatrix\<close> fails and the loop over
  the rows ends after the first row.  So the first expression parsed, which ends at cursor 25
  before \<open>c\<close>, is the region around a single row; the parser goes on at top level, where
  \<open>c\<close> is an expression of its own and the tabulator ends the parse.  This holds for every
  table in which \<open>\begin\<close> is no symbol, text or style command and the tabulator is no
  operator, and for any fuel from ten units on.
\<close>

theorem pmatrix_single_row:
  assumes "symbols T (92 # lit ''begin'') = None" and "textOps T (92 # lit ''begin'') = None"
    and "styleOps T (92 # lit ''begin'') = None" and "operators T (lit ''&'') = None"
  shows "parseExpr T pmatrixInput (10 + k) 0
         = Ok (Some (EDelimited (lit ''('') (lit '')'')
                       [Right (EArray [AlignCenter, AlignCenter]
                                 [[[EIdentifier (lit ''a'')], [EIdentifier (lit ''b'')]]])])) 25
       \<and> readTeX T (10 + k) pmatrixInput
           = Some (Inr [EDelimited (lit ''('') (lit '')'')
                          [Right (EArray [AlignCenter, AlignCenter]
                                    [[[EIdentifier (lit ''a'')], [EIdentifier (lit ''b'')]]])],
                        EIdentifier (lit ''c'')])"
  using pmatrix_first_expr [OF assms(1,2,3)] pmatrix_eval [OF assms] by simp

text \<open>The instance of the theorem for claim C1 at the sample table.\<close>

theorem pmatrix_single_row_witness:
  "symbols sampleTables (92 # lit ''begin'') = None \<and> textOps sampleTables (92 # lit ''begin'') = None
   \<and> styleOps sampleTables (92 # lit ''begin'') = None \<and> operators sampleTables (lit ''&'') = None
   \<and> parseExpr sampleTables pmatrixInput 10 0
       = Ok (Some (EDelimited (lit ''('') (lit '')'')
                     [Right (EArray [AlignCenter, AlignCenter]
                               [[[EIdentifier (lit ''a'')], [EIdentifier (lit ''b'')]]])])) 25
   \<and> readTeX sampleTables 10 pmatrixInput
       = Some (Inr [EDelimited (lit ''('') (lit '')'')
                      [Right (EArray [AlignCenter, AlignCenter]
                                [[[EIdentifier (lit ''a'')], [EIdentifier (lit ''b'')]]])],
                    EIdentifier (lit ''c'')])"
  using pmatrix_single_row [of sampleTables 0] by (simp add: sampleTables_lookups)


section \<open>The summation scenarios\<close>

lemma sum_limits_markup:
  "writeOMML dt
     [ESubsup (ESymbol Op [0x2211])
        (EGrouped [EIdentifier (lit ''i''), ESymbol st (lit ''=''), ENumber (lit ''1'')])
        (EIdentifier (lit ''n'')),
      EIdentifier (lit ''i'')]
   = nodeToString (rootNode dt
       [createNode (lit ''nary'') []
          [createNode (lit ''naryPr'') []
             [createNodeWithVal (lit ''chr'') [0x2211] [],
              createNodeWithVal (lit ''limLoc'') (lit ''subSup'') [],
              createNodeWithVal (lit ''subHide'') (lit ''off'') [],
              createNodeWithVal (lit ''supHide'') (lit ''off'') []],
           createNode (lit ''sub'') []
             [str [] (lit ''i''), str [sty (lit ''p'')] (lit ''=''), str [] (lit ''1'')],
           createNode (lit ''sup'') [] [str [] (lit ''n'')],
           createNode (lit ''e'') [] [str [] (lit ''i'')]]]) 0"
  by (simp only: writeOMML_def sum_limits_nodes)

lemma sum_plain_markup:
  "writeOMML dt [ESymbol Op [0x2211], EIdentifier (lit ''i'')]
   = nodeToString (rootNode dt [str [sty (lit ''p'')] [0x2211], str [] (lit ''i'')]) 0"
  by (simp only: writeOMML_def sum_plain_nodes)

lemma latexToOmml_returned:
  "readTeX T fuel latex = Some (Inr ast) \<Longrightarrow>
     latexToOmml T fuel latex dt = Some (Inr (writeOMML dt ast))"
  by (simp add: latexToOmml_def)

text \<open>
  Claim C2 says that \<open>\sum i\<close> is converted to an n-ary construct with both limits hidden.
  At the sample table the markup returned for \<open>\sum i\<close> is two text runs and contains no
  n-ary element.
\<close>

theorem sum_plain_no_nary:
  "latexToOmml sampleTables 10 sumPlainInput DisplayInline = Some (Inr sumPlainMarkup)
   \<and> \<not> includesStr sumPlainMarkup (lit ''m:nary'')"
proof
  show "latexToOmml sampleTables 10 sumPlainInput DisplayInline = Some (Inr sumPlainMarkup)"
    using latexToOmml_returned [OF sum_plain_eval [of sampleTables 0], of DisplayInline]
    by (simp only: sampleTables_lookups sum_plain_markup sum_plain_string sumPlainMarkup_def
          add_0_right simp_thms)
  show "\<not> includesStr sumPlainMarkup (lit ''m:nary'')"
    by (simp add: sumPlainMarkup_def lit_def)
qed

text \<open>
  Claim C2, amended.  Converting \<open>\sum_{i=1}^{n} i\<close> gives one n-ary element whose
  lower limit is \<open>i=1\<close>, whose upper limit is \<open>n\<close> and whose operand is \<open>i\<close>, with
  neither limit hidden; converting \<open>\sum i\<close> gives no n-ary element but the text run of the
  summation sign followed by the text run of \<open>i\<close>.  This holds in both display modes, for
  every table in which \<open>\sum\<close> is the operator symbol U+2211 and the equals sign is a symbol
  with the value \<open>=\<close>, and for any fuel from ten units on.
\<close>

theorem sum_conversion:
  assumes "symbols T (92 # lit ''sum'') = Some (ESymbol Op [0x2211])"
    and "operators T (lit ''='') = Some (ESymbol st (lit ''=''))"
  shows "latexToOmml T (10 + k) sumLimitsInput dt
         = Some (Inr (nodeToString (rootNode dt
             [createNode (lit ''nary'') []
                [createNode (lit ''naryPr'') []
                   [createNodeWithVal (lit ''chr'') [0x2211] [],
                    createNodeWithVal (lit ''limLoc'') (lit ''subSup'') [],
                    createNodeWithVal (lit ''subHide'') (lit ''off'') [],
                    createNodeWithVal (lit ''supHide'') (lit ''off'') []],
                 createNode (lit ''sub'') []
                   [str [] (lit ''i''), str [sty (lit ''p'')] (lit ''=''), str [] (lit ''1'')],
                 createNode (lit ''sup'') [] [str [] (lit ''n'')],
                 createNode (lit ''e'') [] [str [] (lit ''i'')]]]) 0))
       \<and> latexToOmml T (10 + k) sumPlainInput dt
           = Some (Inr (nodeToString (rootNode dt [str [sty (lit ''p'')] [0x2211], str [] (lit ''i'')]) 0))"
  using latexToOmml_returned [OF sum_limits_eval [OF assms, of k], of dt]
    latexToOmml_returned [OF sum_plain_eval [OF assms(1), of k], of dt]
  by (simp only: sum_limits_markup sum_plain_markup simp_thms)

text \<open>The instance of the theorem for claim C2 at the sample table, in block mode.\<close>

theorem sum_conversion_witness:
  "symbols sampleTables (92 # lit ''sum'') = Some (ESymbol Op [0x2211])
   \<and> operators sampleTables (lit ''='') = Some (ESymbol Rel (lit ''=''))
   \<and> latexToOmml sampleTables 10 sumLimitsInput DisplayBlock
       = Some (Inr (nodeToString (rootNode DisplayBlock
             [createNode (lit ''nary'') []
                [createNode (lit ''naryPr'') []
                   [createNodeWithVal (lit ''chr'') [0x2211] [],
                    createNodeWithVal (lit ''limLoc'') (lit ''subSup'') [],
                    createNodeWithVal (lit ''subHide'') (lit ''off'') [],
                    createNodeWithVal (lit ''supHide'') (lit ''off'') []],
                 createNode (lit ''sub'') []
                   [str [] (lit ''i''), str [sty (lit ''p'')] (lit ''=''), str [] (lit ''1'')],
                 createNode (lit ''sup'') [] [str [] (lit ''n'')],
                 createNode (lit ''e'') [] [str [] (lit ''i'')]]]) 0))
   \<and> latexToOmml sampleTables 10 sumPlainInput DisplayBlock
       = Some (Inr (nodeToString (rootNode DisplayBlock
             [str [sty (lit ''p'')] [0x2211], str [] (lit ''i'')]) 0))"
  using sum_conversion [of sampleTables Rel 0 DisplayBlock] by (simp add: sampleTables_lookups)


section \<open>Errors\<close>

lemma closers_of_inputs:
  "unclosed 123 125 fracInput 0 = 1" "unclosed 91 93 sqrtIndexInput 0 = 1"
  "noCloserMissing boxedInput" "noCloserMissing sqrtSumInput" "noCloserMissing bracedBinomInput"
  by (simp_all add: noCloserMissing_def boxedInput_def bracedBinomInput_def sqrtSumInput_def
        fracInput_def sqrtIndexInput_def lit_def)

lemma lengths_of_inputs:
  "length fracInput = 10" "length sqrtIndexInput = 7"
  by (simp_all add: fracInput_def sqrtIndexInput_def lit_def)

lemma binom_not_recognized:
  assumes "symbols T (92 # lit ''binom'') = None" and "textOps T (92 # lit ''binom'') = None"
    and "styleOps T (92 # lit ''binom'') = None"
  shows "\<not> recognized T (92 # lit ''binom'')"
  using assms by (simp add: recognized_def builtinCommands_def lit_def)

text \<open>
  Claim C5.  Where a closing character is missing the parser does what the claim says:
  \<open>\frac{1}{2\<close>, in which one closing brace is missing, raises the error of the closing brace
  with position 10, the end of the input, and \<open>\sqrt[3\<close>, in which the closing bracket is
  missing, raises the error of the closing bracket with position 7, the end of the input.
  Every error that leaves \<open>readTeX\<close>, whatever the table, the fuel and the input, has one of
  these two messages and a position at which the closing character is not the next one.

  But a missing closing character is not the only condition that aborts the parsing.  In
  \<open>\boxed{x+1}\<close> no closing character is missing, and \<open>readTeX\<close> raises the error of the
  closing brace with position 8, the position of the plus sign: \<open>parseBoxed\<close> reads one
  expression between the braces and \<open>readBraces\<close> requires the closing brace right after it.
  The sibling \<open>parseSqrt\<close> reads the whole content of its braces: \<open>\sqrt{x+1}\<close> returns the
  square root of the group of \<open>x\<close>, the plus sign and \<open>1\<close>.

  The evaluations hold for every table in which \<open>\frac\<close> and \<open>\sqrt\<close> are no symbols,
  \<open>\boxed\<close> is no symbol, text or style command and the plus sign is an operator, and for any
  fuel from ten units on.
\<close>

theorem unbalanced_group:
  assumes "symbols T (92 # lit ''frac'') = None" and "symbols T (92 # lit ''sqrt'') = None"
    and "symbols T (92 # lit ''boxed'') = None" and "textOps T (92 # lit ''boxed'') = None"
    and "styleOps T (92 # lit ''boxed'') = None"
    and "operators T (lit ''+'') = Some (ESymbol st (lit ''+''))"
  shows "readTeX T (10 + k) fracInput = Some (Inl (ParseError (lit ''Expected closing brace'') 10))
       \<and> length fracInput = 10 \<and> unclosed 123 125 fracInput 0 = 1
       \<and> readTeX T (10 + k) sqrtIndexInput
           = Some (Inl (ParseError (lit ''Expected closing bracket'') 7))
       \<and> length sqrtIndexInput = 7 \<and> unclosed 91 93 sqrtIndexInput 0 = 1
       \<and> noCloserMissing boxedInput
       \<and> readTeX T (10 + k) boxedInput = Some (Inl (ParseError (lit ''Expected closing brace'') 8))
       \<and> noCloserMissing sqrtSumInput
       \<and> readTeX T (10 + k) sqrtSumInput
           = Some (Inr [ESqrt (EGrouped [EIdentifier (lit ''x''), ESymbol st (lit ''+''),
                                         ENumber (lit ''1'')])])
       \<and> (\<forall>T' fuel inp e. readTeX T' fuel inp = Some (Inl e) \<longrightarrow> closerExpected inp e)"
  using frac_eval [OF assms(1), of k] sqrt_index_eval [OF assms(2), of k]
    boxed_eval [OF assms(3,4,5), of k] sqrt_sum_eval [OF assms(2,6), of k]
    closers_of_inputs lengths_of_inputs readTeX_raises_only
  by simp

text \<open>The instance of the theorem for claim C5 at the sample table.\<close>

theorem unbalanced_group_witness:
  "symbols sampleTables (92 # lit ''frac'') = None \<and> symbols sampleTables (92 # lit ''sqrt'') = None
   \<and> symbols sampleTables (92 # lit ''boxed'') = None
   \<and> textOps sampleTables (92 # lit ''boxed'') = None
   \<and> styleOps sampleTables (92 # lit ''boxed'') = None
   \<and> operators sampleTables (lit ''+'') = Some (ESymbol Bin (lit ''+''))
   \<and> readTeX sampleTables 10 fracInput = Some (Inl (ParseError (lit ''Expected closing brace'') 10))
   \<and> readTeX sampleTables 10 sqrtIndexInput
       = Some (Inl (ParseError (lit ''Expected closing bracket'') 7))
   \<and> noCloserMissing boxedInput
   \<and> readTeX sampleTables 10 boxedInput = Some (Inl (ParseError (lit ''Expected closing brace'') 8))
   \<and> readTeX sampleTables 10 sqrtSumInput
       = Some (Inr [ESqrt (EGrouped [EIdentifier (lit ''x''), ESymbol Bin (lit ''+''),
                                     ENumber (lit ''1'')])])
   \<and> closerExpected boxedInput (ParseError (lit ''Expected closing brace'') 8)"
  using unbalanced_group [of sampleTables Bin 0]
  by (simp add: sampleTables_lookups) blast

text \<open>
  Claim C6.  At top level the command \<open>\binom\<close>, which no table and no rule of \<open>parseCommand\<close>
  recognizes, is passed over in silence: \<open>\binom{n}{k}\<close> returns the empty sequence and raises
  nothing.  It is passed over in the arguments of \<open>\frac\<close> too, where the loop of
  \<open>parseGroupedExpr\<close> skips what it cannot read: \<open>\frac{\binom{n}{k}}{2}\<close> returns one
  fraction and raises nothing.  Inside a braced group the same command is promoted to a
  failure: \<open>{\binom{n}{k}}\<close>, in which no closing brace is missing, raises the error of the
  closing brace with position 7, the position after the command name, because the loop of
  \<open>parseInBraces\<close> ends at the command and \<open>readBraces\<close> requires the closing brace there.

  The evaluations hold for every table in which \<open>\binom\<close> is no symbol, text or style
  command, \<open>\frac\<close> is no symbol, the opening brace is no operator and the closing brace is
  no operator or enclosure, and for any fuel from ten units on.
\<close>

theorem unrecognized_command:
  assumes "symbols T (92 # lit ''binom'') = None" and "textOps T (92 # lit ''binom'') = None"
    and "styleOps T (92 # lit ''binom'') = None" and "operators T (lit ''{'') = None"
    and "symbols T (92 # lit ''frac'') = None" and "operators T (lit ''}'') = None"
    and "enclosures T (lit ''}'') = None"
  shows "\<not> recognized T (92 # lit ''binom'')
       \<and> readTeX T (10 + k) binomInput = Some (Inr [])
       \<and> readTeX T (10 + k) fracBinomInput
           = Some (Inr [EFraction NormalFrac (EIdentifier (lit ''n'')) (EIdentifier (lit ''k''))])
       \<and> noCloserMissing bracedBinomInput
       \<and> readTeX T (10 + k) bracedBinomInput
           = Some (Inl (ParseError (lit ''Expected closing brace'') 7))"
  using binom_not_recognized [OF assms(1,2,3)] binom_eval [OF assms(1,2,3,4), of k]
    frac_binom_eval [OF assms, of k] braced_binom_eval [OF assms(1,2,3,4), of k]
    closers_of_inputs(5)
  by simp

text \<open>The instance of the theorem for claim C6 at the sample table.\<close>

theorem unrecognized_command_witness:
  "symbols sampleTables (92 # lit ''binom'') = None \<and> textOps sampleTables (92 # lit ''binom'') = None
   \<and> styleOps sampleTables (92 # lit ''binom'') = None \<and> operators sampleTables (lit ''{'') = None
   \<and> symbols sampleTables (92 # lit ''frac'') = None \<and> operators sampleTables (lit ''}'') = None
   \<and> enclosures sampleTables (lit ''}'') = None
   \<and> \<not> recognized sampleTables (92 # lit ''binom'')
   \<and> readTeX sampleTables 10 binomInput = Some (Inr [])
   \<and> readTeX sampleTables 10 fracBinomInput
       = Some (Inr [EFraction NormalFrac (EIdentifier (lit ''n'')) (EIdentifier (lit ''k''))])
   \<and> noCloserMissing bracedBinomInput
   \<and> readTeX sampleTables 10 bracedBinomInput
       = Some (Inl (ParseError (lit ''Expected closing brace'') 7))"
  using unrecognized_command [of sampleTables 0]
  by (simp add: sampleTables_lookups)


section \<open>Braced groups\<close>






end
